theory Spec2Isabelle
  imports Main
begin

section \<open>Data model\<close>

text \<open>
  The program is one Python class, \<open>QuakeQuery\<close>. A page of search results is decoded JSON:
  dictionaries are association lists read with \<^const>\<open>map_of\<close> (a missing key is
  \<open>None\<close>, which the code turns into \<open>KeyError\<close> when it subscripts). Python's \<open>None\<close>
  is the \<open>None\<close> of an option type.
\<close>

type_synonym 'v dict = "(string \<times> 'v) list"

text \<open>
  One element of \<open>api_response["data"]\<close>. Every record of the search service carries \<open>ip\<close>,
  \<open>port\<close> and \<open>service\<close>; the sub-dictionaries of \<open>service\<close> (such as \<open>http\<close>) may be missing,
  and so may the keys inside them.
\<close>

record raw_record =
  ip :: string
  port :: int
  service :: "(string dict) dict"

record api_response =
  page_index :: int
  page_size :: int
  total :: int
  data :: "raw_record list"

datatype jval = JNull | JStr string

text \<open>
  What \<open>requests.get\<close> hands back: the status code, the response headers and, when the body
  is a JSON object, its decoding (\<open>None\<close> when \<open>response.json()\<close> or the subscript on its
  result would raise).
\<close>

record http_response =
  status :: nat
  headers :: "string dict"
  body :: "jval dict option"

datatype py_error =
    KeyError string
  | DNSException
  | RequestException
  | HTTPError
  | JSONDecodeError
  | AttributeError
  | GeocoderError
  | OverflowError
  | OSError

text \<open>
  The outside world, as deterministic functions of the request: the DNS answer for a host name
  (\<open>None\<close>: \<open>resolver.resolve\<close> raises), the response to a GET on a URL (\<open>None\<close>:
  \<open>requests.get\<close> raises a \<open>RequestException\<close>), the reverse geocoder (\<open>None\<close>: it raises;
  \<open>Some None\<close>: it returns no location; \<open>Some (Some a)\<close>: a location with address \<open>a\<close>),
  the search service (\<open>None\<close>: the request fails), and the file system: whether a file of
  that name can be created in the current directory (\<open>False\<close>: \<open>df.to_excel\<close> raises
  \<open>OSError\<close>, as it does when a slash in the name points into a directory that is not there).
\<close>

record env =
  dns_answers :: "string \<Rightarrow> string list option"
  http_get :: "string \<Rightarrow> http_response option"
  geopy_reverse :: "string \<Rightarrow> string option option"
  quake_search :: "string \<Rightarrow> int \<Rightarrow> int \<Rightarrow> api_response option"
  can_write :: "string \<Rightarrow> bool"

text \<open>A row of the table and of the spreadsheet:
  index, host name, IP, port, location, CDN provider.\<close>

type_synonym row = "nat \<times> string \<times> string \<times> int \<times> string option \<times> string option"

datatype message =
    Newline
  | Pagination int int int
  | QueryLine string
  | Warning nat
  | TablePrint "row list"
  | Querying
  | ClearLine
  | GeopyFailed string
  | IpApiFailed string
  | Exported string
  | ApiFailed
  | Usage

text \<open>Everything the program does to the outside, in the order it does it.\<close>

datatype event =
    Resolve string
  | Get string "nat option"
  | Reverse string
  | Post string
  | Print message
  | Connect string
  | CreateTable
  | Insert "(string \<times> string \<times> int) list"
  | Commit
  | ToExcel string "row list"

type_synonym trace = "event list"

type_synonym 'a result = "(py_error + 'a) \<times> trace"

section \<open>Strings\<close>

text \<open>
  The label \<open>"\<dots>"\<close> that the table shows for an unknown value: two CJK characters
  (U+672A U+77E5), here as their UTF-8 bytes.
\<close>

definition unknown_label :: string where
  "unknown_label = [CHR 0xE6, CHR 0x9C, CHR 0xAA, CHR 0xE7, CHR 0x9F, CHR 0xA5]"

definition COMMON_CDN_NAMES :: "string list" where
  "COMMON_CDN_NAMES =
     [''cloudflare'', ''akamai'', ''fastly'', ''maxcdn'', ''cloudfront'', ''azure cdn'',
      ''google cloud cdn'', ''stackpath'', ''limelight'', ''incapsula'']"

text \<open>
  \<open>str.lower()\<close> on a header value. The HTTP client decodes header bytes as Latin-1, so
  each \<^typ>\<open>char\<close> is one code point below 256; of these Python lowers \<open>A\<close>..\<open>Z\<close> and
  U+00C0..U+00DE except the multiplication sign U+00D7, each by adding 32.
\<close>

definition lower_char :: "char \<Rightarrow> char" where
  "lower_char c =
     (let n = (of_char c :: nat)
      in if (65 \<le> n \<and> n \<le> 90) \<or> (192 \<le> n \<and> n \<le> 222 \<and> n \<noteq> 215)
         then char_of (n + 32) else c)"

definition lower :: "string \<Rightarrow> string" where
  "lower s = map lower_char s"

text \<open>Python's \<open>sub in s\<close> on strings: \<open>sub\<close> occurs in \<open>s\<close> as a contiguous block.\<close>

fun starts_with :: "string \<Rightarrow> string \<Rightarrow> bool" where
  "starts_with s [] = True"
| "starts_with [] (c # sub) = False"
| "starts_with (d # s) (c # sub) = (d = c \<and> starts_with s sub)"

fun contains :: "string \<Rightarrow> string \<Rightarrow> bool" where
  "contains [] sub = (sub = [])"
| "contains (d # s) sub = (starts_with (d # s) sub \<or> contains s sub)"

text \<open>\<open>s.replace(old, new)\<close> for a one-character \<open>old\<close>.\<close>

definition replace :: "string \<Rightarrow> char \<Rightarrow> string \<Rightarrow> string" where
  "replace s old new = concat (map (\<lambda>c. if c = old then new else [c]) s)"

text \<open>
  \<open>response.headers.get(name, dflt)\<close>: the header dictionary of \<open>requests\<close> compares
  names without regard to case.
\<close>

definition headers_get :: "string dict \<Rightarrow> string \<Rightarrow> string \<Rightarrow> string" where
  "headers_get hs name dflt =
     (case find (\<lambda>(k, v). lower k = lower name) hs of
        None \<Rightarrow> dflt
      | Some (k, v) \<Rightarrow> v)"

text \<open>\<open>response.raise_for_status()\<close> raises \<open>HTTPError\<close> for a 4xx or 5xx status.\<close>

definition raises_for_status :: "http_response \<Rightarrow> bool" where
  "raises_for_status response = (400 \<le> status response \<and> status response < 600)"

text \<open>The two URLs the program requests: \<open>f"http://{hostname}"\<close> for the probe of a host and
  \<open>f"http://ip-api.com/json/{ip_address}?lang=zh-CN"\<close> for the geolocation query.\<close>

definition probe_url :: "string \<Rightarrow> string" where
  "probe_url hostname = ''http://'' @ hostname"

definition ip_api_url :: "string \<Rightarrow> string" where
  "ip_api_url ip_address = ''http://ip-api.com/json/'' @ ip_address @ ''?lang=zh-CN''"

section \<open>DNS fan-out\<close>

text \<open>
  \<open>check_cdn_usage\<close>: the answers are appended one by one to \<open>ipv4_addresses\<close>; an exception
  of the resolver is not caught.
\<close>

definition check_cdn_usage :: "env \<Rightarrow> string \<Rightarrow> trace \<Rightarrow> bool result" where
  "check_cdn_usage e hostname tr =
     (case dns_answers e hostname of
        None \<Rightarrow> (Inl DNSException, tr @ [Resolve hostname])
      | Some answers \<Rightarrow>
          (let ipv4_addresses = foldl (\<lambda>acc answer. acc @ [answer]) [] answers
           in (Inr (length ipv4_addresses \<ge> 2), tr @ [Resolve hostname])))"

section \<open>CDN provider from the Server header\<close>

text \<open>The \<open>for cdn_name in COMMON_CDN_NAMES\<close> loop; falling out of it returns \<open>None\<close>.\<close>

fun match_catalog :: "string list \<Rightarrow> string \<Rightarrow> string option" where
  "match_catalog [] server_header = None"
| "match_catalog (cdn_name # rest) server_header =
     (if contains server_header (lower cdn_name) then Some cdn_name
      else match_catalog rest server_header)"

text \<open>The body of the \<open>try\<close> in \<open>identify_cdn_provider\<close>.\<close>

definition identify_try :: "env \<Rightarrow> string \<Rightarrow> trace \<Rightarrow> string option result" where
  "identify_try e hostname tr =
     (let url = probe_url hostname; tr1 = tr @ [Get url (Some 5)]
      in case http_get e url of
           None \<Rightarrow> (Inl RequestException, tr1)
         | Some response \<Rightarrow>
             if raises_for_status response then (Inl HTTPError, tr1)
             else
               (let server_header = lower (headers_get (headers response) ''Server'' '''')
                in (Inr (match_catalog COMMON_CDN_NAMES server_header), tr1)))"

text \<open>
  \<open>except (RequestException, HTTPError): pass\<close>, then \<open>return None\<close>; any other exception
  would pass through.
\<close>

definition identify_cdn_provider :: "env \<Rightarrow> string \<Rightarrow> trace \<Rightarrow> string option result" where
  "identify_cdn_provider e hostname tr =
     (case identify_try e hostname tr of
        (Inl err, tr1) \<Rightarrow>
          if err = RequestException \<or> err = HTTPError then (Inr None, tr1) else (Inl err, tr1)
      | (Inr found, tr1) \<Rightarrow> (Inr found, tr1))"

section \<open>Geolocation\<close>

text \<open>The body of the \<open>try\<close> in \<open>_get_ip_location_with_ip_api\<close>.\<close>

definition ip_api_try :: "env \<Rightarrow> string \<Rightarrow> trace \<Rightarrow> string option result" where
  "ip_api_try e ip_address tr =
     (let url = ip_api_url ip_address;
          tr1 = tr @ [Get url None]
      in case http_get e url of
           None \<Rightarrow> (Inl RequestException, tr1)
         | Some response \<Rightarrow>
             if raises_for_status response then (Inl HTTPError, tr1)
             else
               (case body response of
                  None \<Rightarrow> (Inl JSONDecodeError, tr1)
                | Some d \<Rightarrow>
                    (case map_of d ''status'' of
                       None \<Rightarrow> (Inl (KeyError ''status''), tr1)
                     | Some st \<Rightarrow>
                         if st = JStr ''success'' then
                           (case map_of d ''city'' of
                              None \<Rightarrow> (Inl (KeyError ''city''), tr1)
                            | Some JNull \<Rightarrow> (Inr None, tr1)
                            | Some (JStr city) \<Rightarrow> (Inr (Some city), tr1))
                         else (Inr None, tr1))))"

text \<open>\<open>except Exception\<close>: every error is printed and swallowed, then \<open>return None\<close>.\<close>

definition get_ip_location_with_ip_api :: "env \<Rightarrow> string \<Rightarrow> trace \<Rightarrow> string option result" where
  "get_ip_location_with_ip_api e ip_address tr =
     (case ip_api_try e ip_address tr of
        (Inl err, tr1) \<Rightarrow> (Inr None, tr1 @ [Print (IpApiFailed ip_address)])
      | (Inr found, tr1) \<Rightarrow> (Inr found, tr1))"

definition geopy_try :: "env \<Rightarrow> string \<Rightarrow> trace \<Rightarrow> string option result" where
  "geopy_try e ip_address tr =
     (let tr1 = tr @ [Reverse ip_address]
      in case geopy_reverse e ip_address of
           None \<Rightarrow> (Inl GeocoderError, tr1)
         | Some None \<Rightarrow> (Inl AttributeError, tr1)
         | Some (Some address) \<Rightarrow> (Inr (Some address), tr1))"

definition get_ip_location_with_geopy :: "env \<Rightarrow> string \<Rightarrow> trace \<Rightarrow> string option result" where
  "get_ip_location_with_geopy e ip_address tr =
     (case geopy_try e ip_address tr of
        (Inl err, tr1) \<Rightarrow> (Inr None, tr1 @ [Print (GeopyFailed ip_address)])
      | (Inr found, tr1) \<Rightarrow> (Inr found, tr1))"

definition get_ip_location :: "env \<Rightarrow> string \<Rightarrow> trace \<Rightarrow> string option result" where
  "get_ip_location e ip_address tr =
     (case get_ip_location_with_ip_api e ip_address (tr @ [Print Querying]) of
        (Inl err, tr1) \<Rightarrow> (Inl err, tr1)
      | (Inr None, tr1) \<Rightarrow>
          (case get_ip_location_with_geopy e ip_address tr1 of
             (Inl err, tr2) \<Rightarrow> (Inl err, tr2)
           | (Inr location, tr2) \<Rightarrow> (Inr location, tr2 @ [Print ClearLine]))
      | (Inr (Some location), tr1) \<Rightarrow> (Inr (Some location), tr1 @ [Print ClearLine]))"

section \<open>Table display\<close>

text \<open>
  Lines 103 to 106 of \<open>display_results\<close>: the probe runs only when the DNS answer has at
  least two addresses; otherwise the cell is the unknown label.
\<close>

definition cdn_cell :: "env \<Rightarrow> string \<Rightarrow> trace \<Rightarrow> string option result" where
  "cdn_cell e hostname tr =
     (case check_cdn_usage e hostname tr of
        (Inl err, tr1) \<Rightarrow> (Inl err, tr1)
      | (Inr True, tr1) \<Rightarrow> identify_cdn_provider e hostname tr1
      | (Inr False, tr1) \<Rightarrow> (Inr (Some unknown_label), tr1))"

text \<open>\<open>location or "\<dots>"\<close>: \<open>None\<close> and the empty string are false.\<close>

definition or_unknown :: "string option \<Rightarrow> string option" where
  "or_unknown location =
     (case location of
        None \<Rightarrow> Some unknown_label
      | Some s \<Rightarrow> if s = [] then Some unknown_label else Some s)"

text \<open>
  The loop \<open>for index, item in enumerate(api_response["data"], start=1)\<close>; \<open>table\<close> is the
  list of rows added so far.
\<close>

fun display_loop :: "env \<Rightarrow> nat \<Rightarrow> raw_record list \<Rightarrow> row list \<Rightarrow> trace \<Rightarrow> (row list) result" where
  "display_loop e index [] table tr = (Inr table, tr)"
| "display_loop e index (item # rest) table tr =
     (case map_of (service item) ''http'' of
        Some http \<Rightarrow>
          (case map_of http ''host'' of
             None \<Rightarrow> (Inl (KeyError ''host''), tr)
           | Some hostname \<Rightarrow>
               (case cdn_cell e hostname tr of
                  (Inl err, tr1) \<Rightarrow> (Inl err, tr1)
                | (Inr cdn_provider, tr1) \<Rightarrow>
                    (case get_ip_location e (ip item) tr1 of
                       (Inl err, tr2) \<Rightarrow> (Inl err, tr2)
                     | (Inr location, tr2) \<Rightarrow>
                         display_loop e (index + 1) rest
                           (table @ [(index, hostname, ip item, port item,
                                      or_unknown location, cdn_provider)]) tr2)))
      | None \<Rightarrow> display_loop e (index + 1) rest table (tr @ [Print (Warning index)]))"

text \<open>
  \<open>display_results\<close> prints the table and returns nothing; the model returns the table it
  printed so that statements can name it.
\<close>

definition display_results :: "env \<Rightarrow> api_response \<Rightarrow> string \<Rightarrow> trace \<Rightarrow> (row list) result" where
  "display_results e response query_term tr =
     (let tr0 = tr @ [Print Newline,
                      Print (Pagination (page_index response) (page_size response) (total response)),
                      Print (QueryLine query_term)]
      in case display_loop e 1 (data response) [] tr0 of
           (Inl err, tr1) \<Rightarrow> (Inl err, tr1)
         | (Inr table, tr1) \<Rightarrow> (Inr table, tr1 @ [Print (TablePrint table)]))"

section \<open>Relational store\<close>

text \<open>
  The list comprehension of \<open>store_to_database\<close>: it is built in full before any row
  is inserted. \<open>executemany\<close> then inserts row by row and raises \<open>OverflowError\<close> at the
  first port that is not a 64-bit integer, before the commit.
\<close>

fun rows_to_insert :: "raw_record list \<Rightarrow> py_error + (string \<times> string \<times> int) list" where
  "rows_to_insert [] = Inr []"
| "rows_to_insert (item # rest) =
     (case map_of (service item) ''http'' of
        None \<Rightarrow> Inl (KeyError ''http'')
      | Some http \<Rightarrow>
          (case map_of http ''host'' of
             None \<Rightarrow> Inl (KeyError ''host'')
           | Some hostname \<Rightarrow>
               (case rows_to_insert rest of
                  Inl err \<Rightarrow> Inl err
                | Inr rows \<Rightarrow> Inr ((hostname, ip item, port item) # rows))))"

definition fits_sqlite_integer :: "int \<Rightarrow> bool" where
  "fits_sqlite_integer n = (- (2 ^ 63) \<le> n \<and> n < 2 ^ 63)"

definition store_to_database :: "raw_record list \<Rightarrow> trace \<Rightarrow> unit result" where
  "store_to_database results tr =
     (case rows_to_insert results of
        Inl err \<Rightarrow> (Inl err, tr)
      | Inr rows \<Rightarrow>
          if list_all (\<lambda>(hostname, ip_address, p). fits_sqlite_integer p) rows
          then (Inr (), tr @ [Insert rows, Commit])
          else (Inl OverflowError,
                tr @ [Insert (takeWhile (\<lambda>(hostname, ip_address, p). fits_sqlite_integer p)
                                rows)]))"

definition connect_to_database :: "string \<Rightarrow> trace \<Rightarrow> unit result" where
  "connect_to_database db_name tr = (Inr (), tr @ [Connect db_name, CreateTable, Commit])"

section \<open>Spreadsheet export\<close>

text \<open>
  The list comprehension of \<open>export_to_excel\<close> over \<open>enumerate(api_response["data"])\<close>: the
  tuple is evaluated left to right, so the host is read before the two lookups run.
\<close>

fun export_rows :: "env \<Rightarrow> nat \<Rightarrow> raw_record list \<Rightarrow> trace \<Rightarrow> (row list) result" where
  "export_rows e index [] tr = (Inr [], tr)"
| "export_rows e index (item # rest) tr =
     (case map_of (service item) ''http'' of
        None \<Rightarrow> (Inl (KeyError ''http''), tr)
      | Some http \<Rightarrow>
          (case map_of http ''host'' of
             None \<Rightarrow> (Inl (KeyError ''host''), tr)
           | Some hostname \<Rightarrow>
               (case get_ip_location e (ip item) tr of
                  (Inl err, tr1) \<Rightarrow> (Inl err, tr1)
                | (Inr location, tr1) \<Rightarrow>
                    (case identify_cdn_provider e hostname tr1 of
                       (Inl err, tr2) \<Rightarrow> (Inl err, tr2)
                     | (Inr cdn_provider, tr2) \<Rightarrow>
                         (case export_rows e (index + 1) rest tr2 of
                            (Inl err, tr3) \<Rightarrow> (Inl err, tr3)
                          | (Inr rows, tr3) \<Rightarrow>
                              (Inr ((index + 1, hostname, ip item, port item,
                                     location, cdn_provider) # rows), tr3))))))"

definition query_filename :: "string \<Rightarrow> string" where
  "query_filename query_term =
     replace (replace (replace query_term (CHR '' '') ''_'') (CHR '':'') []) (CHR 0x22) []"

definition file_name :: "string \<Rightarrow> string" where
  "file_name query_term = ''quake_results_'' @ query_filename query_term @ ''.xlsx''"

text \<open>
  \<open>df.to_excel\<close> writes the rows under the file name in the current directory, or raises
  \<open>OSError\<close> when the file cannot be created there.
\<close>

definition export_to_excel :: "env \<Rightarrow> api_response \<Rightarrow> string \<Rightarrow> trace \<Rightarrow> (row list) result" where
  "export_to_excel e response query_term tr =
     (case export_rows e 0 (data response) tr of
        (Inl err, tr1) \<Rightarrow> (Inl err, tr1)
      | (Inr rows, tr1) \<Rightarrow>
          if can_write e (file_name query_term)
          then (Inr rows, tr1 @ [ToExcel (file_name query_term) rows,
                                 Print (Exported (file_name query_term))])
          else (Inl OSError, tr1))"

section \<open>The run\<close>

definition perform_search :: "env \<Rightarrow> string \<Rightarrow> int \<Rightarrow> int \<Rightarrow> trace \<Rightarrow> api_response result" where
  "perform_search e query result_count start_page tr =
     (case quake_search e query result_count start_page of
        None \<Rightarrow> (Inl RequestException, tr @ [Post query, Print ApiFailed])
      | Some response \<Rightarrow> (Inr response, tr @ [Post query]))"

text \<open>
  \<open>main\<close> after the command line is parsed: \<open>search\<close> is \<open>args.search\<close>, and
  \<open>if args.search:\<close> is false for \<open>None\<close> and for the empty string.
\<close>

definition main :: "env \<Rightarrow> string option \<Rightarrow> int \<Rightarrow> int \<Rightarrow> trace \<Rightarrow> unit result" where
  "main e search result_count start_page tr =
     (case search of
        None \<Rightarrow> (Inr (), tr @ [Print Usage])
      | Some query \<Rightarrow>
          if query = [] then (Inr (), tr @ [Print Usage])
          else
          (case perform_search e query result_count start_page tr of
             (Inl err, tr1) \<Rightarrow> (Inl err, tr1)
           | (Inr search_results, tr1) \<Rightarrow>
               (case display_results e search_results query tr1 of
                  (Inl err, tr2) \<Rightarrow> (Inl err, tr2)
                | (Inr table, tr2) \<Rightarrow>
                    (case connect_to_database ''quake_results.db'' tr2 of
                       (Inl err, tr3) \<Rightarrow> (Inl err, tr3)
                     | (Inr u, tr3) \<Rightarrow>
                         (case store_to_database (data search_results) tr3 of
                            (Inl err, tr4) \<Rightarrow> (Inl err, tr4)
                          | (Inr u', tr4) \<Rightarrow>
                              (case export_to_excel e search_results query tr4 of
                                 (Inl err, tr5) \<Rightarrow> (Inl err, tr5)
                               | (Inr rows, tr5) \<Rightarrow>
                                   (Inr (), tr5 @ [Print (Exported (file_name query))])))))))"

section \<open>Vocabulary of the statements\<close>

text \<open>An ASCII letter or digit.\<close>

definition is_alnum :: "char \<Rightarrow> bool" where
  "is_alnum c =
     (let n = (of_char c :: nat)
      in (48 \<le> n \<and> n \<le> 57) \<or> (65 \<le> n \<and> n \<le> 90) \<or> (97 \<le> n \<and> n \<le> 122))"

text \<open>\<open>"http" in item["service"]\<close> and \<open>item["service"]["http"]["host"]\<close>.\<close>

definition has_http :: "raw_record \<Rightarrow> bool" where
  "has_http item = (map_of (service item) ''http'' \<noteq> None)"

definition host_of :: "raw_record \<Rightarrow> string option" where
  "host_of item =
     (case map_of (service item) ''http'' of
        None \<Rightarrow> None
      | Some http \<Rightarrow> map_of http ''host'')"

text \<open>
  A catalog name occurs in a header value up to letter case: some contiguous block of the
  value lowers to the same string as the name.
\<close>

definition occurs_ignoring_case :: "string \<Rightarrow> string \<Rightarrow> bool" where
  "occurs_ignoring_case name s = (\<exists>pre mid suf. s = pre @ mid @ suf \<and> lower mid = lower name)"

text \<open>
  The primary geolocation service answers \<open>city\<close> for an address: the GET returns without a
  4xx or 5xx status, the body is a JSON object whose \<open>status\<close> is \<open>success\<close>, and its \<open>city\<close>
  is that string.
\<close>

definition primary_answers :: "env \<Rightarrow> string \<Rightarrow> string \<Rightarrow> bool" where
  "primary_answers e ip_address city =
     (case http_get e (ip_api_url ip_address) of
        None \<Rightarrow> False
      | Some response \<Rightarrow>
          \<not> raises_for_status response \<and>
          (case body response of
             None \<Rightarrow> False
           | Some d \<Rightarrow> map_of d ''status'' = Some (JStr ''success'')
                       \<and> map_of d ''city'' = Some (JStr city)))"

text \<open>The DNS answer for a host name has at least two addresses.\<close>

definition multi_homed :: "env \<Rightarrow> string \<Rightarrow> bool" where
  "multi_homed e hostname =
     (case dns_answers e hostname of
        None \<Rightarrow> False
      | Some answers \<Rightarrow> 2 \<le> length answers)"

text \<open>
  A row of the table and a row of the spreadsheet agree: same index, host, IP and port; the
  table's location is the spreadsheet's with an absent or empty value shown as the unknown
  label; and the CDN cells are equal when the host has at least two addresses.
\<close>

definition rows_agree :: "env \<Rightarrow> row \<Rightarrow> row \<Rightarrow> bool" where
  "rows_agree e table_row sheet_row =
     (case (table_row, sheet_row) of
        ((i, h, a, p, l, c), (i', h', a', p', l', c')) \<Rightarrow>
          i = i' \<and> h = h' \<and> a = a' \<and> p = p' \<and> l = or_unknown l'
          \<and> (multi_homed e h \<longrightarrow> c = c'))"

text \<open>
  Concrete worlds and records for the examples: a world is given by finite tables, and whatever
  is not in a table fails (the name does not resolve, the connection is refused, the geocoder
  raises, the search fails). The current directory is writable and has no subdirectories, so
  a file can be created exactly when its name has no slash.
\<close>

definition world ::
  "(string \<times> string list) list \<Rightarrow> (string \<times> http_response) list \<Rightarrow>
   (string \<times> string option) list \<Rightarrow> (string \<times> api_response) list \<Rightarrow> env" where
  "world dns web geo pages =
     \<lparr>dns_answers = map_of dns, http_get = map_of web, geopy_reverse = map_of geo,
      quake_search = (\<lambda>query result_count start_page. map_of pages query),
      can_write = (\<lambda>name. CHR ''/'' \<notin> set name)\<rparr>"

definition http_record :: "string \<Rightarrow> string \<Rightarrow> int \<Rightarrow> raw_record" where
  "http_record hostname ip_address p =
     \<lparr>ip = ip_address, port = p, service = [(''http'', [(''host'', hostname)])]\<rparr>"

definition bare_record :: "string \<Rightarrow> int \<Rightarrow> raw_record" where
  "bare_record ip_address p = \<lparr>ip = ip_address, port = p, service = []\<rparr>"

definition page_of :: "raw_record list \<Rightarrow> api_response" where
  "page_of records =
     \<lparr>page_index = 1, page_size = 1, total = int (length records), data = records\<rparr>"

definition reply :: "nat \<Rightarrow> string dict \<Rightarrow> http_response" where
  "reply code hs = \<lparr>status = code, headers = hs, body = None\<rparr>"

definition json_reply :: "nat \<Rightarrow> jval dict \<Rightarrow> http_response" where
  "json_reply code d = \<lparr>status = code, headers = [], body = Some d\<rparr>"

section \<open>Unfolding the model\<close>

lemmas geo_defs = get_ip_location_def get_ip_location_with_ip_api_def ip_api_try_def
  get_ip_location_with_geopy_def geopy_try_def

lemmas cdn_defs = identify_cdn_provider_def identify_try_def

lemmas url_defs = probe_url_def ip_api_url_def

lemmas run_defs = display_results_def export_to_excel_def cdn_cell_def check_cdn_usage_def
  geo_defs cdn_defs or_unknown_def raises_for_status_def headers_get_def

lemmas fixture_defs = world_def http_record_def bare_record_def page_of_def reply_def
  json_reply_def

lemmas lower_eval = lower_def lower_char_def char_of_def bit_Suc_0_iff

section \<open>Strings: what the matching and the replacing compute\<close>

lemma starts_with_iff: "starts_with s sub \<longleftrightarrow> (\<exists>suf. s = sub @ suf)"
  by (induction s sub rule: starts_with.induct) auto

lemma contains_iff: "contains s sub \<longleftrightarrow> (\<exists>pre suf. s = pre @ sub @ suf)"
proof (induction s)
  case Nil
  then show ?case by auto
next
  case (Cons d s)
  show ?case
  proof
    assume "contains (d # s) sub"
    then consider "starts_with (d # s) sub" | "contains s sub" by auto
    then show "\<exists>pre suf. d # s = pre @ sub @ suf"
    proof cases
      case 1
      then obtain suf where "d # s = sub @ suf" by (auto simp: starts_with_iff)
      then have "d # s = [] @ sub @ suf" by simp
      then show ?thesis by blast
    next
      case 2
      with Cons obtain pre suf where "s = pre @ sub @ suf" by auto
      then have "d # s = (d # pre) @ sub @ suf" by simp
      then show ?thesis by blast
    qed
  next
    assume "\<exists>pre suf. d # s = pre @ sub @ suf"
    then obtain pre suf where eq: "d # s = pre @ sub @ suf" by blast
    show "contains (d # s) sub"
    proof (cases pre)
      case Nil
      with eq have "starts_with (d # s) sub" by (auto simp: starts_with_iff)
      then show ?thesis by simp
    next
      case (Cons p pre')
      with eq have "s = pre' @ sub @ suf" by simp
      with Cons.IH have "contains s sub" by blast
      then show ?thesis by simp
    qed
  qed
qed

lemma query_filename_Cons:
  "query_filename (c # q) =
     (if c = CHR '' '' then ''_'' else if c = CHR '':'' \<or> c = CHR 0x22 then [] else [c])
     @ query_filename q"
  by (simp add: query_filename_def replace_def)

lemma query_filename_concat:
  "query_filename q =
     concat (map (\<lambda>c. if c = CHR '' '' then ''_''
                       else if c = CHR '':'' \<or> c = CHR 0x22 then [] else [c]) q)"
proof (induction q)
  case Nil
  show ?case by (simp add: query_filename_def replace_def)
next
  case (Cons c q)
  then show ?case by (simp only: query_filename_Cons list.map concat.simps)
qed

section \<open>The name of the spreadsheet file\<close>

text \<open>
  C9 does not hold of the code: the name is a function of the query alone, but
  \<open>export_to_excel\<close> replaces only the space and removes only the colon and the double
  quote, so any other character that is neither a letter nor a digit reaches the file name.
  For the query \<open>ip:1.1.1.0/24\<close> the dots and the slash stay; the name then points into a
  directory that does not exist, \<open>df.to_excel\<close> raises \<open>OSError\<close> after all the lookups are
  done, and no file is written.
\<close>

theorem export_keeps_slash:
  "query_filename ''ip:1.1.1.0/24'' = ''ip1.1.1.0/24''
   \<and> file_name ''ip:1.1.1.0/24'' = ''quake_results_ip1.1.1.0/24.xlsx''
   \<and> CHR ''/'' \<in> set (query_filename ''ip:1.1.1.0/24'')
   \<and> \<not> is_alnum (CHR ''/'')
   \<and> export_to_excel (world [] [] [] []) (page_of [http_record ''a.example'' ''1.1.1.7'' 80])
         ''ip:1.1.1.0/24'' []
     = (Inl OSError,
        [Print Querying, Get (ip_api_url ''1.1.1.7'') None, Print (IpApiFailed ''1.1.1.7''),
         Reverse ''1.1.1.7'', Print (GeopyFailed ''1.1.1.7''), Print ClearLine,
         Get (probe_url ''a.example'') (Some 5)])"
  by (simp add: file_name_def query_filename_def replace_def is_alnum_def export_to_excel_def
      fixture_defs geo_defs cdn_defs url_defs)

section \<open>The classification of a host in the table\<close>

lemma foldl_snoc: "foldl (\<lambda>acc answer. acc @ [answer]) init answers = init @ answers"
  by (induction answers arbitrary: init) auto

lemma check_cdn_usage_eq:
  "check_cdn_usage e h tr =
     ((case dns_answers e h of None \<Rightarrow> Inl DNSException | Some answers \<Rightarrow> Inr (2 \<le> length answers)),
      tr @ [Resolve h])"
  by (simp add: check_cdn_usage_def foldl_snoc split: option.splits)

lemma contains_lower_iff: "contains (lower s) (lower n) \<longleftrightarrow> occurs_ignoring_case n s"
proof
  assume "contains (lower s) (lower n)"
  then obtain pre suf where "map lower_char s = pre @ map lower_char n @ suf"
    by (auto simp: contains_iff lower_def)
  then have "\<exists>us vs. s = us @ vs \<and> pre = map lower_char us
      \<and> map lower_char n @ suf = map lower_char vs"
    by (simp only: map_eq_append_conv)
  then obtain us vs where s: "s = us @ vs" and vs: "map lower_char n @ suf = map lower_char vs"
    by blast
  from vs have "\<exists>ws xs. vs = ws @ xs \<and> map lower_char n = map lower_char ws
      \<and> suf = map lower_char xs"
    by (simp only: append_eq_map_conv)
  then obtain ws xs where "vs = ws @ xs" and "map lower_char ws = map lower_char n"
    by metis
  with s show "occurs_ignoring_case n s"
    unfolding occurs_ignoring_case_def lower_def by blast
next
  assume "occurs_ignoring_case n s"
  then obtain pre mid suf where "s = pre @ mid @ suf" and "lower mid = lower n"
    unfolding occurs_ignoring_case_def by blast
  then have "lower s = lower pre @ lower n @ lower suf"
    by (simp add: lower_def)
  then show "contains (lower s) (lower n)"
    unfolding contains_iff by blast
qed

lemma match_catalog_None:
  "match_catalog cat h = None \<longleftrightarrow> (\<forall>n \<in> set cat. \<not> contains h (lower n))"
  by (induction cat) auto

lemma match_catalog_Some:
  "match_catalog cat h = Some n \<Longrightarrow>
     \<exists>before after. cat = before @ n # after \<and> contains h (lower n)
        \<and> (\<forall>m \<in> set before. \<not> contains h (lower m))"
proof (induction cat)
  case Nil
  then show ?case by simp
next
  case (Cons c cat)
  show ?case
  proof (cases "contains h (lower c)")
    case True
    with Cons.prems have "n = c" by simp
    with True have "c # cat = [] @ n # cat \<and> contains h (lower n)
        \<and> (\<forall>m \<in> set []. \<not> contains h (lower m))" by simp
    then show ?thesis by blast
  next
    case False
    with Cons.prems have "match_catalog cat h = Some n" by simp
    with Cons.IH obtain before after where "cat = before @ n # after" "contains h (lower n)"
      "\<forall>m \<in> set before. \<not> contains h (lower m)" by blast
    with False have "c # cat = (c # before) @ n # after \<and> contains h (lower n)
        \<and> (\<forall>m \<in> set (c # before). \<not> contains h (lower m))" by simp
    then show ?thesis by blast
  qed
qed

lemma empty_not_in_catalog: "[] \<notin> set COMMON_CDN_NAMES"
  by (simp add: COMMON_CDN_NAMES_def)

lemma catalog_names_nonempty: "n \<in> set COMMON_CDN_NAMES \<Longrightarrow> n \<noteq> []"
  using empty_not_in_catalog by blast

lemma occurs_in_empty: "occurs_ignoring_case n [] \<longleftrightarrow> n = []"
  by (auto simp: occurs_ignoring_case_def lower_def)

lemma cdn_cell_multi:
  "dns_answers e h = Some answers \<Longrightarrow> 2 \<le> length answers \<Longrightarrow>
   cdn_cell e h tr = identify_cdn_provider e h (tr @ [Resolve h])"
  by (simp add: cdn_cell_def check_cdn_usage_eq)

lemma cdn_cell_single:
  "dns_answers e h = Some answers \<Longrightarrow> length answers < 2 \<Longrightarrow>
   cdn_cell e h tr = (Inr (Some unknown_label), tr @ [Resolve h])"
  by (simp add: cdn_cell_def check_cdn_usage_eq)

lemma cdn_cell_dns_error:
  "dns_answers e h = None \<Longrightarrow> cdn_cell e h tr = (Inl DNSException, tr @ [Resolve h])"
  by (simp add: cdn_cell_def check_cdn_usage_eq)

lemma identify_ok:
  "http_get e (probe_url h) = Some response \<Longrightarrow> \<not> raises_for_status response \<Longrightarrow>
   identify_cdn_provider e h tr =
     (Inr (match_catalog COMMON_CDN_NAMES (lower (headers_get (headers response) ''Server'' []))),
      tr @ [Get (probe_url h) (Some 5)])"
  by (simp add: cdn_defs)

lemma identify_refused:
  "http_get e (probe_url h) = None \<Longrightarrow>
   identify_cdn_provider e h tr = (Inr None, tr @ [Get (probe_url h) (Some 5)])"
  by (simp add: cdn_defs)

lemma identify_http_error:
  "http_get e (probe_url h) = Some response \<Longrightarrow> raises_for_status response \<Longrightarrow>
   identify_cdn_provider e h tr = (Inr None, tr @ [Get (probe_url h) (Some 5)])"
  by (simp add: cdn_defs)

text \<open>
  C6: for a host whose DNS answer has at least two addresses and whose probe returns without
  an error, the table's classification is decided by the \<open>Server\<close> header alone, matched
  without regard to letter case against the catalog: it is the catalog's own spelling of the
  first entry, in catalog order, that occurs in the header, and it is \<open>None\<close> exactly when no
  entry occurs, in particular when the response has no \<open>Server\<close> header.
\<close>

theorem cdn_provider_first_match:
  assumes "dns_answers e h = Some answers" and "2 \<le> length answers"
    and "http_get e (probe_url h) = Some response" and "\<not> raises_for_status response"
  shows "\<exists>found. fst (cdn_cell e h tr) = Inr found
    \<and> (found = None \<longleftrightarrow>
         (\<forall>name \<in> set COMMON_CDN_NAMES.
            \<not> occurs_ignoring_case name (headers_get (headers response) ''Server'' [])))
    \<and> (\<forall>name. found = Some name \<longrightarrow>
         (\<exists>before after. COMMON_CDN_NAMES = before @ name # after
            \<and> occurs_ignoring_case name (headers_get (headers response) ''Server'' [])
            \<and> (\<forall>m \<in> set before.
                  \<not> occurs_ignoring_case m (headers_get (headers response) ''Server'' []))))
    \<and> (find (\<lambda>(k, v). lower k = lower ''Server'') (headers response) = None \<longrightarrow> found = None)"
proof -
  let ?server = "headers_get (headers response) ''Server'' []"
  let ?found = "match_catalog COMMON_CDN_NAMES (lower ?server)"
  have run: "fst (cdn_cell e h tr) = Inr ?found"
    using assms by (simp add: cdn_cell_multi identify_ok)
  have none: "?found = None \<longleftrightarrow>
      (\<forall>name \<in> set COMMON_CDN_NAMES. \<not> occurs_ignoring_case name ?server)"
    by (simp add: match_catalog_None contains_lower_iff)
  have some: "\<exists>before after. COMMON_CDN_NAMES = before @ name # after
            \<and> occurs_ignoring_case name ?server
            \<and> (\<forall>m \<in> set before. \<not> occurs_ignoring_case m ?server)"
    if "?found = Some name" for name
    using match_catalog_Some [OF that] by (simp add: contains_lower_iff)
  have absent: "?found = None"
    if "find (\<lambda>(k, v). lower k = lower ''Server'') (headers response) = None"
  proof -
    from that have "?server = []" by (simp add: headers_get_def)
    then have "\<forall>name \<in> set COMMON_CDN_NAMES. \<not> occurs_ignoring_case name ?server"
      by (simp add: occurs_in_empty catalog_names_nonempty)
    with none show ?thesis by blast
  qed
  show ?thesis
  proof (rule exI [of _ ?found], intro conjI allI impI)
    show "fst (cdn_cell e h tr) = Inr ?found" by (fact run)
    show "?found = None \<longleftrightarrow>
      (\<forall>name \<in> set COMMON_CDN_NAMES. \<not> occurs_ignoring_case name ?server)" by (fact none)
  next
    fix name
    assume "?found = Some name"
    then show "\<exists>before after. COMMON_CDN_NAMES = before @ name # after
            \<and> occurs_ignoring_case name ?server
            \<and> (\<forall>m \<in> set before. \<not> occurs_ignoring_case m ?server)" by (rule some)
  next
    assume "find (\<lambda>(k, v). lower k = lower ''Server'') (headers response) = None"
    then show "?found = None" by (rule absent)
  qed
qed

theorem cdn_provider_first_match_witness:
  "dns_answers (world [(''cdn.example'', [''1.1.1.1'', ''1.0.0.1''])]
                  [(''http://cdn.example'', reply 200 [(''server'', ''CloudFlare-nginx'')])] [] [])
       ''cdn.example'' = Some [''1.1.1.1'', ''1.0.0.1'']
   \<and> 2 \<le> length [''1.1.1.1'', ''1.0.0.1'']
   \<and> http_get (world [(''cdn.example'', [''1.1.1.1'', ''1.0.0.1''])]
                  [(''http://cdn.example'', reply 200 [(''server'', ''CloudFlare-nginx'')])] [] [])
         (probe_url ''cdn.example'') = Some (reply 200 [(''server'', ''CloudFlare-nginx'')])
   \<and> \<not> raises_for_status (reply 200 [(''server'', ''CloudFlare-nginx'')])
   \<and> fst (cdn_cell (world [(''cdn.example'', [''1.1.1.1'', ''1.0.0.1''])]
                  [(''http://cdn.example'', reply 200 [(''server'', ''CloudFlare-nginx'')])] [] [])
              ''cdn.example'' []) = Inr (Some ''cloudflare'')"
proof -
  let ?w = "world [(''cdn.example'', [''1.1.1.1'', ''1.0.0.1''])]
              [(''http://cdn.example'', reply 200 [(''server'', ''CloudFlare-nginx'')])] [] []"
  let ?r = "reply 200 [(''server'', ''CloudFlare-nginx'')]"
  have h1: "dns_answers ?w ''cdn.example'' = Some [''1.1.1.1'', ''1.0.0.1'']"
    by (simp add: world_def)
  have h2: "2 \<le> length [''1.1.1.1'', ''1.0.0.1'']" by simp
  have h3: "http_get ?w (probe_url ''cdn.example'') = Some ?r"
    by (simp add: world_def probe_url_def)
  have h4: "\<not> raises_for_status ?r"
    by (simp add: raises_for_status_def reply_def)
  have server: "headers_get (headers ?r) ''Server'' [] = ''CloudFlare-nginx''"
    by (simp add: headers_get_def reply_def lower_eval)
  have low: "lower ''CloudFlare-nginx'' = ''cloudflare-nginx''"
    by (simp add: lower_eval)
  have hit: "match_catalog COMMON_CDN_NAMES ''cloudflare-nginx'' = Some ''cloudflare''"
    by (simp add: COMMON_CDN_NAMES_def lower_eval)
  have ev: "fst (cdn_cell ?w ''cdn.example'' []) = Inr (Some ''cloudflare'')"
    by (simp add: cdn_cell_multi [OF h1 h2] identify_ok [OF h3 h4] server low hit)
  from cdn_provider_first_match [OF h1 h2 h3 h4, of "[]"]
  obtain found where "fst (cdn_cell ?w ''cdn.example'' []) = Inr found" by blast
  with ev have "found = Some ''cloudflare''" by simp
  with h1 h2 h3 h4 ev show ?thesis by simp
qed

text \<open>
  C7, as the claim states it, fails for a status that is neither 2xx nor an error for
  \<open>raise_for_status\<close>: a response \<open>304\<close> with \<open>Server: cloudflare\<close> is matched like a
  successful one.
\<close>

theorem not_modified_counterexample:
  "status (reply 304 [(''Server'', ''cloudflare'')]) = 304
   \<and> \<not> (200 \<le> status (reply 304 [(''Server'', ''cloudflare'')])
          \<and> status (reply 304 [(''Server'', ''cloudflare'')]) < 300)
   \<and> multi_homed (world [(''cdn.example'', [''1.1.1.1'', ''1.0.0.1''])]
                  [(''http://cdn.example'', reply 304 [(''Server'', ''cloudflare'')])] [] [])
         ''cdn.example''
   \<and> fst (cdn_cell (world [(''cdn.example'', [''1.1.1.1'', ''1.0.0.1''])]
                  [(''http://cdn.example'', reply 304 [(''Server'', ''cloudflare'')])] [] [])
              ''cdn.example'' []) = Inr (Some ''cloudflare'')"
  by (simp add: cdn_cell_def check_cdn_usage_def cdn_defs url_defs raises_for_status_def
      headers_get_def fixture_defs multi_homed_def COMMON_CDN_NAMES_def lower_eval)

text \<open>
  C7, amended: for a host whose DNS answer has at least two addresses and whose probe fails
  with a connection error, a timeout or a 4xx or 5xx status, the classification is \<open>None\<close>, in
  the table as in the spreadsheet export, and no exception leaves \<open>identify_cdn_provider\<close>;
  the probe is the only request made.
\<close>

theorem probe_failure_gives_none:
  assumes "dns_answers e h = Some answers" and "2 \<le> length answers"
    and "http_get e (probe_url h) = None
         \<or> (\<exists>response. http_get e (probe_url h) = Some response
               \<and> 400 \<le> status response \<and> status response < 600)"
  shows "cdn_cell e h tr = (Inr None, tr @ [Resolve h, Get (probe_url h) (Some 5)])
       \<and> identify_cdn_provider e h tr = (Inr None, tr @ [Get (probe_url h) (Some 5)])"
  using assms
  by (auto simp: cdn_cell_multi identify_refused identify_http_error raises_for_status_def)

theorem probe_failure_gives_none_witness:
  "cdn_cell (world [(''down.example'', [''1.1.1.1'', ''1.0.0.1''])] [] [] []) ''down.example'' []
     = (Inr None, [Resolve ''down.example'', Get ''http://down.example'' (Some 5)])
   \<and> cdn_cell (world [(''cdn.example'', [''1.1.1.1'', ''1.0.0.1''])]
                  [(''http://cdn.example'', reply 503 [(''Server'', ''cloudflare'')])] [] [])
        ''cdn.example'' []
     = (Inr None, [Resolve ''cdn.example'', Get ''http://cdn.example'' (Some 5)])"
proof -
  let ?w1 = "world [(''down.example'', [''1.1.1.1'', ''1.0.0.1''])] [] [] []"
  let ?w2 = "world [(''cdn.example'', [''1.1.1.1'', ''1.0.0.1''])]
                  [(''http://cdn.example'', reply 503 [(''Server'', ''cloudflare'')])] [] []"
  have a1: "dns_answers ?w1 ''down.example'' = Some [''1.1.1.1'', ''1.0.0.1'']"
    by (simp add: world_def)
  have a2: "dns_answers ?w2 ''cdn.example'' = Some [''1.1.1.1'', ''1.0.0.1'']"
    by (simp add: world_def)
  have len: "2 \<le> length [''1.1.1.1'', ''1.0.0.1'']" by simp
  have refused: "http_get ?w1 (probe_url ''down.example'') = None
      \<or> (\<exists>response. http_get ?w1 (probe_url ''down.example'') = Some response
            \<and> 400 \<le> status response \<and> status response < 600)"
    by (simp add: world_def probe_url_def)
  have unavailable: "http_get ?w2 (probe_url ''cdn.example'') = None
      \<or> (\<exists>response. http_get ?w2 (probe_url ''cdn.example'') = Some response
            \<and> 400 \<le> status response \<and> status response < 600)"
    by (simp add: world_def probe_url_def reply_def)
  from probe_failure_gives_none [OF a1 len refused, of "[]"]
    probe_failure_gives_none [OF a2 len unavailable, of "[]"]
  show ?thesis by (simp add: probe_url_def)
qed

section \<open>Geolocation: primary provider, then fallback\<close>

lemma primary_hit:
  "primary_answers e a city \<Longrightarrow>
   get_ip_location_with_ip_api e a tr = (Inr (Some city), tr @ [Get (ip_api_url a) None])"
  by (auto simp: primary_answers_def get_ip_location_with_ip_api_def ip_api_try_def
      Let_def split: option.splits)

lemma primary_miss:
  "\<forall>city. \<not> primary_answers e a city \<Longrightarrow>
   \<exists>rest. get_ip_location_with_ip_api e a tr = (Inr None, tr @ Get (ip_api_url a) None # rest)
     \<and> Reverse a \<notin> set rest"
  by (auto simp: primary_answers_def get_ip_location_with_ip_api_def ip_api_try_def
      Let_def split: option.splits jval.splits)

lemma secondary_result:
  "\<exists>rest. get_ip_location_with_geopy e a tr =
      (Inr (case geopy_reverse e a of Some (Some address) \<Rightarrow> Some address | _ \<Rightarrow> None),
       tr @ Reverse a # rest)"
  by (auto simp: get_ip_location_with_geopy_def geopy_try_def Let_def split: option.splits)

text \<open>
  C5: \<open>get_ip_location\<close> never raises, and its first request is the GET to the primary
  geolocation service. When that service answers (no request error, no 4xx or 5xx status, a
  JSON object with \<open>status = "success"\<close> and a string \<open>city\<close>), the result is that city and the
  reverse geocoder is not called. In every other case the reverse geocoder is called, and the
  result is its address, or \<open>None\<close> when it raises or finds nothing.
\<close>

theorem get_ip_location_fallback:
  "\<exists>location rest.
     get_ip_location e a tr
       = (Inr location, tr @ Print Querying # Get (ip_api_url a) None # rest)
     \<and> ((\<exists>city. primary_answers e a city \<and> location = Some city \<and> Reverse a \<notin> set rest)
        \<or> ((\<forall>city. \<not> primary_answers e a city) \<and> Reverse a \<in> set rest
            \<and> location = (case geopy_reverse e a of
                             Some (Some address) \<Rightarrow> Some address | _ \<Rightarrow> None)))"
proof (cases "\<exists>city. primary_answers e a city")
  case True
  then obtain city where city: "primary_answers e a city" by blast
  have "get_ip_location e a tr
      = (Inr (Some city), tr @ Print Querying # Get (ip_api_url a) None # [Print ClearLine])"
    by (simp add: get_ip_location_def primary_hit [OF city])
  with city show ?thesis by fastforce
next
  case False
  then have none: "\<forall>city. \<not> primary_answers e a city" by blast
  from primary_miss [OF none, of "tr @ [Print Querying]"]
  obtain r1 where first:
    "get_ip_location_with_ip_api e a (tr @ [Print Querying])
       = (Inr None, tr @ Print Querying # Get (ip_api_url a) None # r1)"
    by auto
  let ?loc = "case geopy_reverse e a of Some (Some address) \<Rightarrow> Some address | _ \<Rightarrow> None"
  from secondary_result [of e a "tr @ Print Querying # Get (ip_api_url a) None # r1"]
  obtain r2 where second:
    "get_ip_location_with_geopy e a (tr @ Print Querying # Get (ip_api_url a) None # r1)
       = (Inr ?loc, tr @ Print Querying # Get (ip_api_url a) None # r1 @ Reverse a # r2)"
    by auto
  have "get_ip_location e a tr
      = (Inr ?loc, tr @ Print Querying # Get (ip_api_url a) None
                      # (r1 @ Reverse a # r2 @ [Print ClearLine]))"
    by (simp add: get_ip_location_def first second)
  moreover have "Reverse a \<in> set (r1 @ Reverse a # r2 @ [Print ClearLine])" by simp
  ultimately show ?thesis using none by blast
qed

theorem get_ip_location_fallback_witness:
  "primary_answers
     (world [] [(ip_api_url ''8.8.8.8'',
                 json_reply 200 [(''status'', JStr ''success''), (''city'', JStr ''Ashburn'')])]
        [] [])
     ''8.8.8.8'' ''Ashburn''
   \<and> get_ip_location
       (world [] [(ip_api_url ''8.8.8.8'',
                   json_reply 200 [(''status'', JStr ''success''), (''city'', JStr ''Ashburn'')])]
          [] [])
       ''8.8.8.8'' []
     = (Inr (Some ''Ashburn''),
        [Print Querying, Get (ip_api_url ''8.8.8.8'') None, Print ClearLine])
   \<and> (\<forall>city. \<not> primary_answers
         (world [] [(ip_api_url ''8.8.8.8'', json_reply 200 [(''status'', JStr ''fail'')])]
            [(''8.8.8.8'', Some ''1600 Amphitheatre Parkway'')] [])
         ''8.8.8.8'' city)
   \<and> get_ip_location
       (world [] [(ip_api_url ''8.8.8.8'', json_reply 200 [(''status'', JStr ''fail'')])]
          [(''8.8.8.8'', Some ''1600 Amphitheatre Parkway'')] [])
       ''8.8.8.8'' []
     = (Inr (Some ''1600 Amphitheatre Parkway''),
        [Print Querying, Get (ip_api_url ''8.8.8.8'') None, Reverse ''8.8.8.8'',
         Print ClearLine])
   \<and> get_ip_location (world [] [] [] []) ''8.8.8.8'' []
     = (Inr None,
        [Print Querying, Get (ip_api_url ''8.8.8.8'') None, Print (IpApiFailed ''8.8.8.8''),
         Reverse ''8.8.8.8'', Print (GeopyFailed ''8.8.8.8''), Print ClearLine])"
proof -
  let ?w1 = "world [] [(ip_api_url ''8.8.8.8'',
                 json_reply 200 [(''status'', JStr ''success''), (''city'', JStr ''Ashburn'')])]
        [] []"
  let ?w2 = "world [] [(ip_api_url ''8.8.8.8'', json_reply 200 [(''status'', JStr ''fail'')])]
            [(''8.8.8.8'', Some ''1600 Amphitheatre Parkway'')] []"
  let ?w3 = "world [] [] [] []"
  have p1: "primary_answers ?w1 ''8.8.8.8'' ''Ashburn''"
    by (simp add: primary_answers_def fixture_defs raises_for_status_def)
  have p2: "\<forall>city. \<not> primary_answers ?w2 ''8.8.8.8'' city"
    by (simp add: primary_answers_def fixture_defs raises_for_status_def)
  have p3: "\<forall>city. \<not> primary_answers ?w3 ''8.8.8.8'' city"
    by (simp add: primary_answers_def fixture_defs)
  have g2: "geopy_reverse ?w2 ''8.8.8.8'' = Some (Some ''1600 Amphitheatre Parkway'')"
    by (simp add: fixture_defs)
  have g3: "geopy_reverse ?w3 ''8.8.8.8'' = None"
    by (simp add: fixture_defs)
  have e1: "get_ip_location ?w1 ''8.8.8.8'' []
      = (Inr (Some ''Ashburn''),
         [Print Querying, Get (ip_api_url ''8.8.8.8'') None, Print ClearLine])"
    by (simp add: geo_defs fixture_defs raises_for_status_def)
  have e2: "get_ip_location ?w2 ''8.8.8.8'' []
      = (Inr (Some ''1600 Amphitheatre Parkway''),
         [Print Querying, Get (ip_api_url ''8.8.8.8'') None, Reverse ''8.8.8.8'',
          Print ClearLine])"
    by (simp add: geo_defs fixture_defs raises_for_status_def)
  have e3: "get_ip_location ?w3 ''8.8.8.8'' []
      = (Inr None,
         [Print Querying, Get (ip_api_url ''8.8.8.8'') None, Print (IpApiFailed ''8.8.8.8''),
          Reverse ''8.8.8.8'', Print (GeopyFailed ''8.8.8.8''), Print ClearLine])"
    by (simp add: geo_defs fixture_defs)
  from get_ip_location_fallback [of ?w1 "''8.8.8.8''" "[]"]
  obtain l1 r1 where "get_ip_location ?w1 ''8.8.8.8'' [] =
      (Inr l1, [] @ Print Querying # Get (ip_api_url ''8.8.8.8'') None # r1)"
    by blast
  with e1 have l1: "l1 = Some ''Ashburn''" by simp
  from get_ip_location_fallback [of ?w2 "''8.8.8.8''" "[]"]
  obtain l2 r2 where "get_ip_location ?w2 ''8.8.8.8'' [] =
      (Inr l2, [] @ Print Querying # Get (ip_api_url ''8.8.8.8'') None # r2)"
    by blast
  with e2 have l2: "l2 = Some ''1600 Amphitheatre Parkway''" by simp
  from get_ip_location_fallback [of ?w3 "''8.8.8.8''" "[]"]
  obtain l3 r3 where "get_ip_location ?w3 ''8.8.8.8'' [] =
      (Inr l3, [] @ Print Querying # Get (ip_api_url ''8.8.8.8'') None # r3)"
    by blast
  with e3 have l3: "l3 = None" by simp
  from l1 l2 l3 p1 p2 e1 e2 e3 show ?thesis by simp
qed

section \<open>A host name that does not resolve\<close>

text \<open>
  C2 does not hold of the code: \<open>check_cdn_usage\<close> has no handler around
  \<open>resolver.resolve\<close>, unlike the HTTP probe and both geolocation lookups, so the exception
  of one record ends \<open>display_results\<close> and with it the run. On a page of two records whose
  first host does not resolve, no row is emitted for either record, the table is not printed,
  and nothing is stored or exported.
\<close>

theorem dns_failure_aborts_run:
  "display_results (world [(''ok.example'', [''10.0.0.2''])] [] []
                      [(''port:80'', page_of [http_record ''gone.example'' ''10.0.0.1'' 80,
                                               http_record ''ok.example'' ''10.0.0.2'' 443])])
     (page_of [http_record ''gone.example'' ''10.0.0.1'' 80,
               http_record ''ok.example'' ''10.0.0.2'' 443]) ''port:80'' []
     = (Inl DNSException,
        [Print Newline, Print (Pagination 1 1 2), Print (QueryLine ''port:80''),
         Resolve ''gone.example''])
   \<and> main (world [(''ok.example'', [''10.0.0.2''])] [] []
                      [(''port:80'', page_of [http_record ''gone.example'' ''10.0.0.1'' 80,
                                               http_record ''ok.example'' ''10.0.0.2'' 443])])
       (Some ''port:80'') 100 1 []
     = (Inl DNSException,
        [Post ''port:80'', Print Newline, Print (Pagination 1 1 2), Print (QueryLine ''port:80''),
         Resolve ''gone.example''])"
  by (simp add: main_def perform_search_def display_results_def cdn_cell_def check_cdn_usage_def
      fixture_defs)

section \<open>A host with a single address, in the table and in the spreadsheet\<close>

text \<open>
  C3 does not hold of the code in the export path: \<open>display_results\<close> asks
  \<open>check_cdn_usage\<close> first and shows the unknown label without probing, while
  \<open>export_to_excel\<close> calls \<open>identify_cdn_provider\<close> for every record. For a host with one
  address whose server announces \<open>cloudflare\<close>, the table makes no probe and the export
  makes one and writes \<open>cloudflare\<close>.
\<close>

theorem export_probes_single_address_host:
  "\<not> multi_homed (world [(''solo.example'', [''10.0.0.3''])]
                     [(probe_url ''solo.example'', reply 200 [(''Server'', ''cloudflare'')])] [] [])
        ''solo.example''
   \<and> display_results (world [(''solo.example'', [''10.0.0.3''])]
                     [(probe_url ''solo.example'', reply 200 [(''Server'', ''cloudflare'')])] [] [])
       (page_of [http_record ''solo.example'' ''10.0.0.3'' 80]) ''port:80'' []
     = (Inr [(1, ''solo.example'', ''10.0.0.3'', 80, Some unknown_label, Some unknown_label)],
        [Print Newline, Print (Pagination 1 1 1), Print (QueryLine ''port:80''),
         Resolve ''solo.example'',
         Print Querying, Get (ip_api_url ''10.0.0.3'') None, Print (IpApiFailed ''10.0.0.3''),
         Reverse ''10.0.0.3'', Print (GeopyFailed ''10.0.0.3''), Print ClearLine,
         Print (TablePrint
           [(1, ''solo.example'', ''10.0.0.3'', 80, Some unknown_label, Some unknown_label)])])
   \<and> export_to_excel (world [(''solo.example'', [''10.0.0.3''])]
                     [(probe_url ''solo.example'', reply 200 [(''Server'', ''cloudflare'')])] [] [])
       (page_of [http_record ''solo.example'' ''10.0.0.3'' 80]) ''port:80'' []
     = (Inr [(1, ''solo.example'', ''10.0.0.3'', 80, None, Some ''cloudflare'')],
        [Print Querying, Get (ip_api_url ''10.0.0.3'') None, Print (IpApiFailed ''10.0.0.3''),
         Reverse ''10.0.0.3'', Print (GeopyFailed ''10.0.0.3''), Print ClearLine,
         Get (probe_url ''solo.example'') (Some 5),
         ToExcel ''quake_results_port80.xlsx''
           [(1, ''solo.example'', ''10.0.0.3'', 80, None, Some ''cloudflare'')],
         Print (Exported ''quake_results_port80.xlsx'')])"
  by (simp add: multi_homed_def display_results_def export_to_excel_def cdn_cell_def
      check_cdn_usage_def geo_defs cdn_defs url_defs fixture_defs or_unknown_def
      raises_for_status_def headers_get_def COMMON_CDN_NAMES_def lower_eval
      file_name_def query_filename_def replace_def unknown_label_def)

section \<open>A run is a function of the page and the world\<close>

text \<open>
  Every operation appends its own events to the trace it is given and never reads that
  trace, so its outcome and the events it adds are the same whatever came before.
\<close>

lemma identify_total:
  "\<exists>found. \<forall>tr. identify_cdn_provider e h tr = (Inr found, tr @ [Get (probe_url h) (Some 5)])"
proof (cases "http_get e (probe_url h)")
  case None
  then show ?thesis by (simp add: identify_refused)
next
  case (Some response)
  then show ?thesis
    by (cases "raises_for_status response") (simp_all add: identify_http_error identify_ok)
qed

lemma get_ip_location_shift:
  "get_ip_location e a tr = (fst (get_ip_location e a []), tr @ snd (get_ip_location e a []))"
  by (simp add: geo_defs Let_def split: option.splits jval.splits)

lemma get_ip_location_returns: "\<exists>location. fst (get_ip_location e a tr) = Inr location"
  by (simp add: geo_defs Let_def split: option.splits jval.splits)

lemma get_ip_location_total:
  "\<exists>location ev. \<forall>tr. get_ip_location e a tr = (Inr location, tr @ ev)"
proof -
  obtain location where "fst (get_ip_location e a []) = Inr location"
    using get_ip_location_returns by blast
  then have "get_ip_location e a tr = (Inr location, tr @ snd (get_ip_location e a []))" for tr
    by (subst get_ip_location_shift) simp
  then show ?thesis by blast
qed

lemma cdn_cell_total: "\<exists>res ev. \<forall>tr. cdn_cell e h tr = (res, tr @ ev)"
proof (cases "dns_answers e h")
  case None
  then show ?thesis by (simp add: cdn_cell_dns_error)
next
  case (Some answers)
  show ?thesis
  proof (cases "2 \<le> length answers")
    case True
    obtain found where "\<forall>tr. identify_cdn_provider e h tr
        = (Inr found, tr @ [Get (probe_url h) (Some 5)])"
      using identify_total by blast
    then have "\<forall>tr. cdn_cell e h tr = (Inr found, tr @ [Resolve h, Get (probe_url h) (Some 5)])"
      by (simp add: cdn_cell_multi [OF Some True])
    then show ?thesis by blast
  next
    case False
    then have "length answers < 2" by simp
    then show ?thesis by (simp add: cdn_cell_single [OF Some])
  qed
qed

lemma cdn_cell_error: "fst (cdn_cell e h tr) = Inl err \<Longrightarrow> err = DNSException"
proof (cases "dns_answers e h")
  case None
  assume "fst (cdn_cell e h tr) = Inl err"
  with None show ?thesis by (simp add: cdn_cell_dns_error)
next
  case (Some answers)
  assume err: "fst (cdn_cell e h tr) = Inl err"
  show ?thesis
  proof (cases "2 \<le> length answers")
    case True
    obtain found where "\<forall>tr. identify_cdn_provider e h tr
        = (Inr found, tr @ [Get (probe_url h) (Some 5)])"
      using identify_total by blast
    with err show ?thesis by (simp add: cdn_cell_multi [OF Some True])
  next
    case False
    then have "length answers < 2" by simp
    with err show ?thesis by (simp add: cdn_cell_single [OF Some])
  qed
qed

lemma display_loop_total:
  "\<exists>res ev. \<forall>tr. display_loop e k page table tr = (res, tr @ ev)"
proof (induction page arbitrary: k table)
  case Nil
  have "\<forall>tr. display_loop e k [] table tr = (Inr table, tr @ [])" by simp
  then show ?case by blast
next
  case (Cons item rest)
  show ?case
  proof (cases "map_of (service item) ''http''")
    case None
    from Cons.IH [of "k + 1" table] obtain res ev
      where "\<forall>tr. display_loop e (k + 1) rest table tr = (res, tr @ ev)" by blast
    with None have "\<forall>tr. display_loop e k (item # rest) table tr
        = (res, tr @ Print (Warning k) # ev)" by simp
    then show ?thesis by blast
  next
    case (Some http)
    show ?thesis
    proof (cases "map_of http ''host''")
      case None
      with Some have "\<forall>tr. display_loop e k (item # rest) table tr
          = (Inl (KeyError ''host''), tr @ [])" by simp
      then show ?thesis by blast
    next
      case host: (Some hostname)
      obtain c_res c_ev where cell: "\<forall>tr. cdn_cell e hostname tr = (c_res, tr @ c_ev)"
        using cdn_cell_total by blast
      obtain location l_ev
        where loc: "\<forall>tr. get_ip_location e (ip item) tr = (Inr location, tr @ l_ev)"
        using get_ip_location_total by blast
      show ?thesis
      proof (cases c_res)
        case (Inl err)
        with Some host cell have "\<forall>tr. display_loop e k (item # rest) table tr
            = (Inl err, tr @ c_ev)" by simp
        then show ?thesis by blast
      next
        case (Inr cdn_provider)
        from Cons.IH [of "k + 1" "table @ [(k, hostname, ip item, port item,
              or_unknown location, cdn_provider)]"]
        obtain res ev where "\<forall>tr. display_loop e (k + 1) rest
            (table @ [(k, hostname, ip item, port item, or_unknown location, cdn_provider)]) tr
            = (res, tr @ ev)" by blast
        with Some host cell loc Inr have "\<forall>tr. display_loop e k (item # rest) table tr
            = (res, tr @ c_ev @ l_ev @ ev)" by simp
        then show ?thesis by blast
      qed
    qed
  qed
qed

lemma export_rows_total:
  "\<exists>res ev. \<forall>tr. export_rows e k page tr = (res, tr @ ev)"
proof (induction page arbitrary: k)
  case Nil
  have "\<forall>tr. export_rows e k [] tr = (Inr [], tr @ [])" by simp
  then show ?case by blast
next
  case (Cons item rest)
  show ?case
  proof (cases "map_of (service item) ''http''")
    case None
    then have "\<forall>tr. export_rows e k (item # rest) tr = (Inl (KeyError ''http''), tr @ [])"
      by simp
    then show ?thesis by blast
  next
    case (Some http)
    show ?thesis
    proof (cases "map_of http ''host''")
      case None
      with Some have "\<forall>tr. export_rows e k (item # rest) tr
          = (Inl (KeyError ''host''), tr @ [])" by simp
      then show ?thesis by blast
    next
      case host: (Some hostname)
      obtain location l_ev
        where loc: "\<forall>tr. get_ip_location e (ip item) tr = (Inr location, tr @ l_ev)"
        using get_ip_location_total by blast
      obtain found where cdn: "\<forall>tr. identify_cdn_provider e hostname tr
          = (Inr found, tr @ [Get (probe_url hostname) (Some 5)])"
        using identify_total by blast
      from Cons.IH [of "k + 1"] obtain res ev
        where rest: "\<forall>tr. export_rows e (k + 1) rest tr = (res, tr @ ev)" by blast
      show ?thesis
      proof (cases res)
        case (Inl err)
        with Some host loc cdn rest have "\<forall>tr. export_rows e k (item # rest) tr
            = (Inl err, tr @ l_ev @ Get (probe_url hostname) (Some 5) # ev)" by simp
        then show ?thesis by blast
      next
        case (Inr rows)
        with Some host loc cdn rest have "\<forall>tr. export_rows e k (item # rest) tr
            = (Inr ((k + 1, hostname, ip item, port item, location, found) # rows),
               tr @ l_ev @ Get (probe_url hostname) (Some 5) # ev)" by simp
        then show ?thesis by blast
      qed
    qed
  qed
qed

text \<open>
  C10: two runs of the enrichment on the same page against the same world give the same
  outcome (the same rows, with the same indices, hosts, addresses, ports, locations and CDN
  cells in the same order, or the same exception) and make the same requests in the same
  order, whatever happened before each run. This holds of the table path and of the
  spreadsheet path, each compared with itself.
\<close>

theorem enrichment_deterministic:
  "(\<exists>outcome ev. \<forall>tr. display_results e response q tr = (outcome, tr @ ev))
   \<and> (\<exists>outcome ev. \<forall>tr. export_to_excel e response q tr = (outcome, tr @ ev))"
proof
  let ?head = "[Print Newline,
      Print (Pagination (page_index response) (page_size response) (total response)),
      Print (QueryLine q)]"
  obtain res ev where loop: "\<forall>tr. display_loop e 1 (data response) [] tr = (res, tr @ ev)"
    using display_loop_total by blast
  show "\<exists>outcome ev. \<forall>tr. display_results e response q tr = (outcome, tr @ ev)"
  proof (cases res)
    case (Inl err)
    with loop have "\<forall>tr. display_results e response q tr = (Inl err, tr @ ?head @ ev)"
      by (simp add: display_results_def)
    then show ?thesis by blast
  next
    case (Inr table)
    with loop have "\<forall>tr. display_results e response q tr
        = (Inr table, tr @ ?head @ ev @ [Print (TablePrint table)])"
      by (simp add: display_results_def)
    then show ?thesis by blast
  qed
next
  obtain res ev where rows: "\<forall>tr. export_rows e 0 (data response) tr = (res, tr @ ev)"
    using export_rows_total by blast
  show "\<exists>outcome ev. \<forall>tr. export_to_excel e response q tr = (outcome, tr @ ev)"
  proof (cases res)
    case (Inl err)
    with rows have "\<forall>tr. export_to_excel e response q tr = (Inl err, tr @ ev)"
      by (simp add: export_to_excel_def)
    then show ?thesis by blast
  next
    case (Inr sheet)
    show ?thesis
    proof (cases "can_write e (file_name q)")
      case True
      with rows Inr have "\<forall>tr. export_to_excel e response q tr
          = (Inr sheet, tr @ ev @ [ToExcel (file_name q) sheet, Print (Exported (file_name q))])"
        by (simp add: export_to_excel_def)
      then show ?thesis by blast
    next
      case False
      with rows Inr have "\<forall>tr. export_to_excel e response q tr = (Inl OSError, tr @ ev)"
        by (simp add: export_to_excel_def)
      then show ?thesis by blast
    qed
  qed
qed

section \<open>The loops over a page\<close>

lemma rows_to_insert_invalid:
  "\<exists>item \<in> set page. \<not> has_http item \<Longrightarrow> \<exists>k. rows_to_insert page = Inl (KeyError k)"
proof (induction page)
  case Nil
  then show ?case by simp
next
  case (Cons item rest)
  show ?case
  proof (cases "map_of (service item) ''http''")
    case None
    then show ?thesis by simp
  next
    case (Some http)
    show ?thesis
    proof (cases "map_of http ''host''")
      case None
      with Some show ?thesis by simp
    next
      case host: (Some hostname)
      from Some have "has_http item" by (simp add: has_http_def)
      with Cons.prems have "\<exists>item \<in> set rest. \<not> has_http item" by auto
      with Cons.IH obtain k where "rows_to_insert rest = Inl (KeyError k)" by blast
      with Some host show ?thesis by simp
    qed
  qed
qed

lemma export_rows_invalid:
  "\<exists>item \<in> set page. \<not> has_http item \<Longrightarrow> \<exists>k. fst (export_rows e i page tr) = Inl (KeyError k)"
proof (induction page arbitrary: i tr)
  case Nil
  then show ?case by simp
next
  case (Cons item rest)
  show ?case
  proof (cases "map_of (service item) ''http''")
    case None
    then show ?thesis by simp
  next
    case (Some http)
    show ?thesis
    proof (cases "map_of http ''host''")
      case None
      with Some show ?thesis by simp
    next
      case host: (Some hostname)
      from Some have "has_http item" by (simp add: has_http_def)
      with Cons.prems have invalid: "\<exists>item \<in> set rest. \<not> has_http item" by auto
      obtain location l_ev
        where loc: "\<forall>tr. get_ip_location e (ip item) tr = (Inr location, tr @ l_ev)"
        using get_ip_location_total by blast
      obtain found where cdn: "\<forall>tr. identify_cdn_provider e hostname tr
          = (Inr found, tr @ [Get (probe_url hostname) (Some 5)])"
        using identify_total by blast
      from Cons.IH [OF invalid, of "i + 1" "tr @ l_ev @ [Get (probe_url hostname) (Some 5)]"]
      obtain k where "fst (export_rows e (i + 1) rest
          (tr @ l_ev @ [Get (probe_url hostname) (Some 5)])) = Inl (KeyError k)" by blast
      then obtain tr3 where "export_rows e (i + 1) rest
          (tr @ l_ev @ [Get (probe_url hostname) (Some 5)]) = (Inl (KeyError k), tr3)"
        by (cases "export_rows e (i + 1) rest (tr @ l_ev @ [Get (probe_url hostname) (Some 5)])")
          simp
      with Some host loc cdn show ?thesis by simp
    qed
  qed
qed

lemma display_loop_no_http_error:
  "fst (display_loop e k page table tr) \<noteq> Inl (KeyError ''http'')"
proof (induction page arbitrary: k table tr)
  case Nil
  show ?case by simp
next
  case (Cons item rest)
  show ?case
  proof (cases "map_of (service item) ''http''")
    case None
    with Cons.IH show ?thesis by simp
  next
    case (Some http)
    show ?thesis
    proof (cases "map_of http ''host''")
      case None
      with Some show ?thesis by simp
    next
      case host: (Some hostname)
      obtain location l_ev
        where loc: "\<forall>tr. get_ip_location e (ip item) tr = (Inr location, tr @ l_ev)"
        using get_ip_location_total by blast
      obtain c_res tr1 where cell: "cdn_cell e hostname tr = (c_res, tr1)"
        by (cases "cdn_cell e hostname tr")
      show ?thesis
      proof (cases c_res)
        case (Inl err)
        with cell have "err = DNSException" using cdn_cell_error [of e hostname tr err] by simp
        with Some host cell Inl show ?thesis by simp
      next
        case (Inr cdn_provider)
        with Some host cell loc Cons.IH show ?thesis by simp
      qed
    qed
  qed
qed

lemma display_loop_warns:
  "display_loop e k page table tr = (Inr table', tr') \<Longrightarrow> i < length page \<Longrightarrow>
   \<not> has_http (page ! i) \<Longrightarrow> Print (Warning (k + i)) \<in> set tr'"
proof (induction page arbitrary: k table tr i)
  case Nil
  then show ?case by simp
next
  case (Cons item rest)
  show ?case
  proof (cases "map_of (service item) ''http''")
    case None
    with Cons.prems(1) have run: "display_loop e (k + 1) rest table (tr @ [Print (Warning k)])
        = (Inr table', tr')" by simp
    show ?thesis
    proof (cases i)
      case 0
      obtain res ev where "\<forall>tr. display_loop e (k + 1) rest table tr = (res, tr @ ev)"
        using display_loop_total by blast
      with run have "tr' = (tr @ [Print (Warning k)]) @ ev" by simp
      with 0 show ?thesis by simp
    next
      case (Suc j)
      with Cons.prems have "j < length rest" "\<not> has_http (rest ! j)" by simp_all
      from Cons.IH [OF run this] Suc show ?thesis by simp
    qed
  next
    case (Some http)
    then have valid: "has_http item" by (simp add: has_http_def)
    with Cons.prems obtain j where i: "i = Suc j" by (cases i) auto
    with Cons.prems have j: "j < length rest" "\<not> has_http (rest ! j)" by simp_all
    from Cons.prems(1) Some obtain tb tr2
      where "display_loop e (k + 1) rest tb tr2 = (Inr table', tr')"
      by (auto split: option.splits prod.splits sum.splits)
    from Cons.IH [OF this j] i show ?thesis by simp
  qed
qed

lemma display_loop_rows:
  "display_loop e k page table tr = (Inr table', tr') \<Longrightarrow>
   map (\<lambda>(i, h, a, p, l, c). (i, Some h, a, p)) table'
     = map (\<lambda>(i, h, a, p, l, c). (i, Some h, a, p)) table
       @ map (\<lambda>(i, item). (i, host_of item, ip item, port item))
           (filter (\<lambda>(i, item). has_http item) (zip [k..<k + length page] page))"
proof (induction page arbitrary: k table tr)
  case Nil
  then show ?case by simp
next
  case (Cons item rest)
  have "k < k + length (item # rest)" by simp
  from upt_conv_Cons [OF this]
  have upt: "[k..<k + length (item # rest)] = k # [k + 1..<(k + 1) + length rest]"
    by simp
  show ?case
  proof (cases "map_of (service item) ''http''")
    case None
    with Cons.prems have run: "display_loop e (k + 1) rest table (tr @ [Print (Warning k)])
        = (Inr table', tr')" by simp
    from None have "\<not> has_http item" by (simp add: has_http_def)
    with Cons.IH [OF run] show ?thesis by (simp only: upt zip_Cons_Cons filter.simps) simp
  next
    case (Some http)
    then have valid: "has_http item" by (simp add: has_http_def)
    from Cons.prems Some obtain hostname cdn_provider location tr2
      where host: "map_of http ''host'' = Some hostname"
        and run: "display_loop e (k + 1) rest
            (table @ [(k, hostname, ip item, port item, or_unknown location, cdn_provider)]) tr2
            = (Inr table', tr')"
      by (auto split: option.splits prod.splits sum.splits)
    from Some host have "host_of item = Some hostname" by (simp add: host_of_def)
    with Cons.IH [OF run] valid show ?thesis
      by (simp only: upt zip_Cons_Cons filter.simps) simp
  qed
qed


lemma sorted_positions: "sorted_wrt (<) (map fst (filter P (zip [a..<b] ys)))"
proof -
  have "sorted_wrt (<) (take (length ys) [a..<b])"
    by (rule sorted_wrt_take) simp
  then have "sorted_wrt (<) (map fst (zip [a..<b] ys))"
    by (simp only: map_fst_zip_take) (simp add: min.commute take_all)
  then have "sorted_wrt (\<lambda>x y. fst x < fst y) (zip [a..<b] ys)"
    by (simp only: sorted_wrt_map)
  then have "sorted_wrt (\<lambda>x y. fst x < fst y) (filter P (zip [a..<b] ys))"
    by (rule sorted_wrt_filter)
  then show ?thesis by (simp only: sorted_wrt_map)
qed

lemma display_results_Inr:
  "fst (display_results e response q tr) = Inr table \<Longrightarrow>
   \<exists>tr0 tr1. display_loop e 1 (data response) [] tr0 = (Inr table, tr1)
      \<and> display_results e response q tr = (Inr table, tr1 @ [Print (TablePrint table)])"
  by (auto simp: display_results_def Let_def split: prod.splits sum.splits)

section \<open>The indices of the table\<close>

text \<open>
  C1, as the claim states it, fails: \<open>enumerate(..., start=1)\<close> counts every record of the
  page, so a skipped record uses up its index. On the page \<open>[A, B, C]\<close> with \<open>B\<close> lacking the
  \<open>http\<close> block the table has two rows, numbered 1 and 3.
\<close>

theorem skipped_record_takes_index_counterexample:
  "filter has_http [http_record ''a.example'' ''10.0.0.1'' 80, bare_record ''10.0.0.2'' 22,
                    http_record ''c.example'' ''10.0.0.3'' 443]
     = [http_record ''a.example'' ''10.0.0.1'' 80, http_record ''c.example'' ''10.0.0.3'' 443]
   \<and> fst (display_results
            (world [(''a.example'', [''10.0.0.1'']), (''c.example'', [''10.0.0.3''])] [] [] [])
            (page_of [http_record ''a.example'' ''10.0.0.1'' 80, bare_record ''10.0.0.2'' 22,
                      http_record ''c.example'' ''10.0.0.3'' 443]) ''port:80'' [])
     = Inr [(1, ''a.example'', ''10.0.0.1'', 80, Some unknown_label, Some unknown_label),
            (3, ''c.example'', ''10.0.0.3'', 443, Some unknown_label, Some unknown_label)]"
  by (simp add: run_defs fixture_defs has_http_def)

text \<open>
  C1, amended: whenever \<open>display_results\<close> completes, the rows of the table are the records
  with the \<open>http\<close> block, in the order of the page, each with its host, IP and port and
  with its 1-based position in the raw page as index; the indices are strictly increasing,
  and a record without the \<open>http\<close> block is skipped but still counted.
\<close>

theorem table_rows_are_page_positions:
  assumes "fst (display_results e response q tr) = Inr table"
  shows "map (\<lambda>(i, h, a, p, l, c). (i, Some h, a, p)) table
           = map (\<lambda>(i, item). (i, host_of item, ip item, port item))
               (filter (\<lambda>(i, item). has_http item)
                  (zip [1..<Suc (length (data response))] (data response)))
       \<and> sorted_wrt (<) (map fst table)"
proof -
  let ?valid = "filter (\<lambda>(i, item). has_http item)
                  (zip [1..<Suc (length (data response))] (data response))"
  from display_results_Inr [OF assms] obtain tr0 tr1
    where "display_loop e 1 (data response) [] tr0 = (Inr table, tr1)" by blast
  from display_loop_rows [OF this]
  have rows: "map (\<lambda>(i, h, a, p, l, c). (i, Some h, a, p)) table
           = map (\<lambda>(i, item). (i, host_of item, ip item, port item)) ?valid"
    by simp
  have "map fst table = map fst (map (\<lambda>(i, h, a, p, l, c). (i, Some h, a, p)) table)"
    by (simp add: split_def)
  also have "\<dots> = map fst (map (\<lambda>(i, item). (i, host_of item, ip item, port item)) ?valid)"
    by (simp only: rows)
  also have "\<dots> = map fst ?valid"
    by (simp add: split_def)
  finally have "sorted_wrt (<) (map fst table)"
    by (simp only: sorted_positions)
  with rows show ?thesis by blast
qed

theorem table_rows_are_page_positions_witness:
  "fst (display_results
          (world [(''a.example'', [''10.0.0.1'']), (''c.example'', [''10.0.0.3''])] [] [] [])
          (page_of [http_record ''a.example'' ''10.0.0.1'' 80, bare_record ''10.0.0.2'' 22,
                    http_record ''c.example'' ''10.0.0.3'' 443]) ''port:80'' [])
     = Inr [(1, ''a.example'', ''10.0.0.1'', 80, Some unknown_label, Some unknown_label),
            (3, ''c.example'', ''10.0.0.3'', 443, Some unknown_label, Some unknown_label)]
   \<and> map (\<lambda>(i, item). (i, host_of item, ip item, port item))
         (filter (\<lambda>(i, item). has_http item)
            (zip [1..<Suc (length (data (page_of
                    [http_record ''a.example'' ''10.0.0.1'' 80, bare_record ''10.0.0.2'' 22,
                     http_record ''c.example'' ''10.0.0.3'' 443])))]
               (data (page_of
                    [http_record ''a.example'' ''10.0.0.1'' 80, bare_record ''10.0.0.2'' 22,
                     http_record ''c.example'' ''10.0.0.3'' 443]))))
     = [(1, Some ''a.example'', ''10.0.0.1'', 80), (3, Some ''c.example'', ''10.0.0.3'', 443)]
   \<and> sorted_wrt (<) (map fst
         [(1::nat, ''a.example'', ''10.0.0.1'', 80::int, Some unknown_label, Some unknown_label),
          (3, ''c.example'', ''10.0.0.3'', 443, Some unknown_label, Some unknown_label)])"
proof -
  let ?w = "world [(''a.example'', [''10.0.0.1'']), (''c.example'', [''10.0.0.3''])] [] [] []"
  let ?page = "page_of [http_record ''a.example'' ''10.0.0.1'' 80, bare_record ''10.0.0.2'' 22,
                    http_record ''c.example'' ''10.0.0.3'' 443]"
  let ?table = "[(1::nat, ''a.example'', ''10.0.0.1'', 80::int, Some unknown_label,
                  Some unknown_label),
                 (3, ''c.example'', ''10.0.0.3'', 443, Some unknown_label, Some unknown_label)]"
  have run: "fst (display_results ?w ?page ''port:80'' []) = Inr ?table"
    by (simp add: run_defs fixture_defs)
  from table_rows_are_page_positions [OF run] run show ?thesis by simp
qed

section \<open>Records without the http block in the store and the export\<close>

lemma store_invalid:
  "\<exists>item \<in> set results. \<not> has_http item \<Longrightarrow>
   \<exists>k. store_to_database results tr = (Inl (KeyError k), tr)"
  using rows_to_insert_invalid [of results] by (auto simp: store_to_database_def)

lemma export_invalid:
  "\<exists>item \<in> set (data response). \<not> has_http item \<Longrightarrow>
   \<exists>k. fst (export_to_excel e response q tr) = Inl (KeyError k)"
  using export_rows_invalid [of "data response" e 0 tr]
  by (auto simp: export_to_excel_def split: prod.splits sum.splits)

lemma display_results_no_http_error:
  "fst (display_results e response q tr) \<noteq> Inl (KeyError ''http'')"
proof
  assume "fst (display_results e response q tr) = Inl (KeyError ''http'')"
  then obtain tr0 tr2
    where "display_loop e 1 (data response) [] tr0 = (Inl (KeyError ''http''), tr2)"
    by (auto simp: display_results_def Let_def split: prod.splits sum.splits)
  then have "fst (display_loop e 1 (data response) [] tr0) = Inl (KeyError ''http'')"
    by simp
  with display_loop_no_http_error show False by blast
qed

lemma display_results_warns:
  assumes "display_results e response q tr = (Inr table, tr1)"
    and "i < length (data response)" and "\<not> has_http (data response ! i)"
  shows "Print (Warning (Suc i)) \<in> set tr1"
proof -
  from assms(1) obtain tr0 tr2
    where loop: "display_loop e 1 (data response) [] tr0 = (Inr table, tr2)"
      and tr1: "tr1 = tr2 @ [Print (TablePrint table)]"
    by (auto simp: display_results_def Let_def split: prod.splits sum.splits)
  from display_loop_warns [OF loop assms(2) assms(3)] tr1 show ?thesis by simp
qed

lemma main_invalid:
  assumes "\<exists>item \<in> set (data response). \<not> has_http item"
    and "q \<noteq> []"
    and "quake_search e q n p = Some response"
    and "display_results e response q (tr @ [Post q]) = (Inr table, tr1)"
  shows "\<exists>k tr0. main e (Some q) n p tr
      = (Inl (KeyError k),
         tr0 @ [Print (TablePrint table), Connect ''quake_results.db'', CreateTable, Commit])"
proof -
  from assms(4) obtain tr0 where tr1: "tr1 = tr0 @ [Print (TablePrint table)]"
    by (auto simp: display_results_def Let_def split: prod.splits sum.splits)
  from store_invalid [OF assms(1)] obtain k
    where "store_to_database (data response)
             (tr1 @ [Connect ''quake_results.db'', CreateTable, Commit])
           = (Inl (KeyError k), tr1 @ [Connect ''quake_results.db'', CreateTable, Commit])"
    by blast
  with assms(2) assms(3) assms(4) tr1 have "main e (Some q) n p tr
      = (Inl (KeyError k),
         tr0 @ [Print (TablePrint table), Connect ''quake_results.db'', CreateTable, Commit])"
    by (simp add: main_def perform_search_def connect_to_database_def)
  then show ?thesis by blast
qed

text \<open>
  C8, as the claim states it, fails in its remark on the run: a page with a record lacking
  the \<open>http\<close> block need not get as far as the store. Here the first record's host does
  not resolve, the second record has no \<open>http\<close> block, and the run ends in the table display
  with the resolver's exception: no table is printed and no \<open>KeyError\<close> is raised.
\<close>

theorem run_ends_before_store_counterexample:
  "\<not> has_http (bare_record ''10.0.0.2'' 22)
   \<and> main (world [] [] []
              [(''port:80'', page_of [http_record ''gone.example'' ''10.0.0.1'' 80,
                                       bare_record ''10.0.0.2'' 22])])
       (Some ''port:80'') 100 1 []
     = (Inl DNSException,
        [Post ''port:80'', Print Newline, Print (Pagination 1 1 2), Print (QueryLine ''port:80''),
         Resolve ''gone.example''])"
  by (simp add: main_def perform_search_def display_results_def cdn_cell_def check_cdn_usage_def
      fixture_defs has_http_def)

text \<open>
  C8, amended: on a page with at least one record whose \<open>service\<close> lacks the \<open>http\<close> block,
  \<open>store_to_database\<close> raises \<open>KeyError\<close> before inserting anything and \<open>export_to_excel\<close>
  raises \<open>KeyError\<close> too. The table display alone skips such a record: it never raises
  \<open>KeyError('http')\<close>, and when it completes it has printed a warning with the position of
  each such record. A run with a non-empty query whose table display completes ends with
  the \<open>KeyError\<close> of the store, right after the table is printed and the database is opened.
\<close>

theorem sinks_raise_without_http:
  assumes "\<exists>item \<in> set (data response). \<not> has_http item"
  shows "(\<exists>k. store_to_database (data response) tr = (Inl (KeyError k), tr))
    \<and> (\<exists>k. fst (export_to_excel e response q tr) = Inl (KeyError k))
    \<and> fst (display_results e response q tr) \<noteq> Inl (KeyError ''http'')
    \<and> (\<forall>table tr1 i. display_results e response q tr = (Inr table, tr1)
          \<longrightarrow> i < length (data response) \<longrightarrow> \<not> has_http (data response ! i)
          \<longrightarrow> Print (Warning (Suc i)) \<in> set tr1)
    \<and> (\<forall>table tr1. q \<noteq> [] \<longrightarrow> quake_search e q n p = Some response
          \<longrightarrow> display_results e response q (tr @ [Post q]) = (Inr table, tr1)
          \<longrightarrow> (\<exists>k tr0. main e (Some q) n p tr
                = (Inl (KeyError k),
                   tr0 @ [Print (TablePrint table), Connect ''quake_results.db'', CreateTable,
                          Commit])))"
proof (intro conjI allI impI)
  show "\<exists>k. store_to_database (data response) tr = (Inl (KeyError k), tr)"
    by (rule store_invalid [OF assms])
  show "\<exists>k. fst (export_to_excel e response q tr) = Inl (KeyError k)"
    by (rule export_invalid [OF assms])
  show "fst (display_results e response q tr) \<noteq> Inl (KeyError ''http'')"
    by (rule display_results_no_http_error)
next
  fix table tr1 i
  assume "display_results e response q tr = (Inr table, tr1)"
    and "i < length (data response)" and "\<not> has_http (data response ! i)"
  then show "Print (Warning (Suc i)) \<in> set tr1" by (rule display_results_warns)
next
  fix table tr1
  assume "q \<noteq> []" and "quake_search e q n p = Some response"
    and "display_results e response q (tr @ [Post q]) = (Inr table, tr1)"
  with assms show "\<exists>k tr0. main e (Some q) n p tr
                = (Inl (KeyError k),
                   tr0 @ [Print (TablePrint table), Connect ''quake_results.db'', CreateTable,
                          Commit])"
    by (rule main_invalid)
qed

theorem sinks_raise_without_http_witness:
  "\<not> has_http (bare_record ''10.0.0.2'' 22)
   \<and> store_to_database
       (data (page_of [http_record ''a.example'' ''10.0.0.1'' 80, bare_record ''10.0.0.2'' 22])) []
     = (Inl (KeyError ''http''), [])
   \<and> fst (export_to_excel
            (world [(''a.example'', [''10.0.0.1''])] [] []
               [(''port:80'', page_of [http_record ''a.example'' ''10.0.0.1'' 80,
                                        bare_record ''10.0.0.2'' 22])])
            (page_of [http_record ''a.example'' ''10.0.0.1'' 80, bare_record ''10.0.0.2'' 22])
            ''port:80'' [])
     = Inl (KeyError ''http'')
   \<and> fst (display_results
            (world [(''a.example'', [''10.0.0.1''])] [] []
               [(''port:80'', page_of [http_record ''a.example'' ''10.0.0.1'' 80,
                                        bare_record ''10.0.0.2'' 22])])
            (page_of [http_record ''a.example'' ''10.0.0.1'' 80, bare_record ''10.0.0.2'' 22])
            ''port:80'' [])
     = Inr [(1, ''a.example'', ''10.0.0.1'', 80, Some unknown_label, Some unknown_label)]
   \<and> fst (main
            (world [(''a.example'', [''10.0.0.1''])] [] []
               [(''port:80'', page_of [http_record ''a.example'' ''10.0.0.1'' 80,
                                        bare_record ''10.0.0.2'' 22])])
            (Some ''port:80'') 100 1 [])
     = Inl (KeyError ''http'')"
proof -
  let ?page = "page_of [http_record ''a.example'' ''10.0.0.1'' 80, bare_record ''10.0.0.2'' 22]"
  let ?w = "world [(''a.example'', [''10.0.0.1''])] [] [] [(''port:80'', ?page)]"
  have bare: "\<not> has_http (bare_record ''10.0.0.2'' 22)"
    by (simp add: has_http_def bare_record_def)
  then have invalid: "\<exists>item \<in> set (data ?page). \<not> has_http item"
    by (simp add: page_of_def)
  have store: "store_to_database (data ?page) [] = (Inl (KeyError ''http''), [])"
    by (simp add: store_to_database_def fixture_defs)
  have export: "fst (export_to_excel ?w ?page ''port:80'' []) = Inl (KeyError ''http'')"
    by (simp add: run_defs url_defs fixture_defs)
  have display: "fst (display_results ?w ?page ''port:80'' [])
      = Inr [(1, ''a.example'', ''10.0.0.1'', 80, Some unknown_label, Some unknown_label)]"
    by (simp add: run_defs fixture_defs)
  have run: "fst (main ?w (Some ''port:80'') 100 1 []) = Inl (KeyError ''http'')"
    by (simp add: main_def perform_search_def connect_to_database_def store_to_database_def
        run_defs fixture_defs)
  from sinks_raise_without_http [OF invalid, of "[]" ?w "''port:80''" 100 1]
  have "\<exists>k. store_to_database (data ?page) [] = (Inl (KeyError k), [])" by blast
  with bare store export display run show ?thesis by simp
qed

section \<open>The table and the spreadsheet\<close>

text \<open>
  C4, as the claim states it, fails: no enriched sequence is built once and handed to the
  sinks. \<open>display_results\<close> and \<open>export_to_excel\<close> each walk the raw page and make their own
  lookups, so a run probes a host twice; and the table shows the unknown label where the
  spreadsheet gets \<open>None\<close>. Here the host has two addresses and announces \<open>cloudflare\<close>, and
  no geolocation provider answers.
\<close>

theorem table_differs_from_spreadsheet_counterexample:
  "fst (display_results
          (world [(''cdn.example'', [''1.1.1.1'', ''1.0.0.1''])]
             [(probe_url ''cdn.example'', reply 200 [(''Server'', ''cloudflare'')])] []
             [(''port:80'', page_of [http_record ''cdn.example'' ''1.1.1.1'' 80])])
          (page_of [http_record ''cdn.example'' ''1.1.1.1'' 80]) ''port:80'' [])
     = Inr [(1, ''cdn.example'', ''1.1.1.1'', 80, Some unknown_label, Some ''cloudflare'')]
   \<and> fst (export_to_excel
          (world [(''cdn.example'', [''1.1.1.1'', ''1.0.0.1''])]
             [(probe_url ''cdn.example'', reply 200 [(''Server'', ''cloudflare'')])] []
             [(''port:80'', page_of [http_record ''cdn.example'' ''1.1.1.1'' 80])])
          (page_of [http_record ''cdn.example'' ''1.1.1.1'' 80]) ''port:80'' [])
     = Inr [(1, ''cdn.example'', ''1.1.1.1'', 80, None, Some ''cloudflare'')]
   \<and> Some unknown_label \<noteq> (None :: string option)
   \<and> length (filter (\<lambda>ev. ev = Get (probe_url ''cdn.example'') (Some 5))
         (snd (main
            (world [(''cdn.example'', [''1.1.1.1'', ''1.0.0.1''])]
               [(probe_url ''cdn.example'', reply 200 [(''Server'', ''cloudflare'')])] []
               [(''port:80'', page_of [http_record ''cdn.example'' ''1.1.1.1'' 80])])
            (Some ''port:80'') 100 1 []))) = 2"
  by (simp add: main_def perform_search_def connect_to_database_def store_to_database_def
      fits_sqlite_integer_def file_name_def query_filename_def replace_def
      run_defs url_defs fixture_defs COMMON_CDN_NAMES_def lower_eval)

lemma cdn_cell_multi_homed:
  assumes "multi_homed e h"
    and "\<forall>tr. identify_cdn_provider e h tr = (Inr found, tr @ [Get (probe_url h) (Some 5)])"
  shows "fst (cdn_cell e h tr) = Inr found"
proof -
  from assms(1) obtain answers where "dns_answers e h = Some answers" "2 \<le> length answers"
    by (auto simp: multi_homed_def split: option.splits)
  from cdn_cell_multi [OF this] assms(2) show ?thesis by simp
qed

lemma loops_agree:
  "display_loop e (Suc k) page table tr = (Inr table', tr1) \<Longrightarrow>
   export_rows e k page tr2 = (Inr sheet, tr3) \<Longrightarrow>
   \<exists>new. table' = table @ new \<and> list_all2 (rows_agree e) new sheet"
proof (induction page arbitrary: k table tr tr2 sheet)
  case Nil
  then show ?case by simp
next
  case (Cons item rest)
  from Cons.prems(2) obtain http where http: "map_of (service item) ''http'' = Some http"
    by (cases "map_of (service item) ''http''") simp_all
  from Cons.prems(2) http obtain hostname where host: "map_of http ''host'' = Some hostname"
    by (cases "map_of http ''host''") simp_all
  obtain location l_ev
    where loc: "\<forall>tr. get_ip_location e (ip item) tr = (Inr location, tr @ l_ev)"
    using get_ip_location_total by blast
  obtain found where cdn: "\<forall>tr. identify_cdn_provider e hostname tr
      = (Inr found, tr @ [Get (probe_url hostname) (Some 5)])"
    using identify_total by blast
  from Cons.prems(2) http host loc cdn obtain rows tr4
    where rows: "export_rows e (Suc k) rest tr4 = (Inr rows, tr3)"
      and sheet: "sheet = (Suc k, hostname, ip item, port item, location, found) # rows"
    by (auto split: prod.splits sum.splits)
  obtain c_res tr5 where cell: "cdn_cell e hostname tr = (c_res, tr5)"
    by (cases "cdn_cell e hostname tr")
  from Cons.prems(1) http host cell obtain cdn_provider where c_res: "c_res = Inr cdn_provider"
    by (cases c_res) simp_all
  let ?row = "(Suc k, hostname, ip item, port item, or_unknown location, cdn_provider)"
  from Cons.prems(1) http host cell c_res loc
  have "display_loop e (Suc (Suc k)) rest (table @ [?row]) (tr5 @ l_ev) = (Inr table', tr1)"
    by simp
  from Cons.IH [OF this rows] obtain new'
    where new': "table' = (table @ [?row]) @ new'" "list_all2 (rows_agree e) new' rows"
    by blast
  have "multi_homed e hostname \<longrightarrow> cdn_provider = found"
  proof
    assume "multi_homed e hostname"
    from cdn_cell_multi_homed [OF this cdn, of tr] cell c_res show "cdn_provider = found"
      by simp
  qed
  then have "rows_agree e ?row (Suc k, hostname, ip item, port item, location, found)"
    by (simp add: rows_agree_def)
  with new' sheet have "table' = table @ (?row # new')
      \<and> list_all2 (rows_agree e) (?row # new') sheet" by simp
  then show ?case by blast
qed

text \<open>
  C4, amended: the table and the spreadsheet are computed separately from the raw page. For
  the same page and the same world, whenever both complete, they have the same number of
  rows, and corresponding rows have the same index, host, IP and port; the location of the
  table is the location of the spreadsheet with an absent or empty value shown as the unknown
  label; and the CDN cells are equal for every host with at least two addresses.
\<close>

theorem table_and_spreadsheet_agree:
  assumes "fst (display_results e response q tr) = Inr table"
    and "fst (export_to_excel e response q tr') = Inr sheet"
  shows "list_all2 (rows_agree e) table sheet"
proof -
  from display_results_Inr [OF assms(1)] obtain tr0 tr1
    where display: "display_loop e (Suc 0) (data response) [] tr0 = (Inr table, tr1)"
    by auto
  from assms(2) obtain tr3 where "export_rows e 0 (data response) tr' = (Inr sheet, tr3)"
    by (auto simp: export_to_excel_def split: prod.splits sum.splits if_splits)
  from loops_agree [OF display this] show ?thesis by simp
qed

theorem table_and_spreadsheet_agree_witness:
  "fst (display_results
          (world [(''cdn.example'', [''1.1.1.1'', ''1.0.0.1''])]
             [(probe_url ''cdn.example'', reply 200 [(''Server'', ''cloudflare'')])] [] [])
          (page_of [http_record ''cdn.example'' ''1.1.1.1'' 80]) ''port:80'' [])
     = Inr [(1, ''cdn.example'', ''1.1.1.1'', 80, Some unknown_label, Some ''cloudflare'')]
   \<and> fst (export_to_excel
          (world [(''cdn.example'', [''1.1.1.1'', ''1.0.0.1''])]
             [(probe_url ''cdn.example'', reply 200 [(''Server'', ''cloudflare'')])] [] [])
          (page_of [http_record ''cdn.example'' ''1.1.1.1'' 80]) ''port:80'' [])
     = Inr [(1, ''cdn.example'', ''1.1.1.1'', 80, None, Some ''cloudflare'')]
   \<and> multi_homed
         (world [(''cdn.example'', [''1.1.1.1'', ''1.0.0.1''])]
             [(probe_url ''cdn.example'', reply 200 [(''Server'', ''cloudflare'')])] [] [])
         ''cdn.example''
   \<and> or_unknown None = Some unknown_label
   \<and> list_all2
         (rows_agree
            (world [(''cdn.example'', [''1.1.1.1'', ''1.0.0.1''])]
               [(probe_url ''cdn.example'', reply 200 [(''Server'', ''cloudflare'')])] [] []))
         [(1, ''cdn.example'', ''1.1.1.1'', 80, Some unknown_label, Some ''cloudflare'')]
         [(1, ''cdn.example'', ''1.1.1.1'', 80, None, Some ''cloudflare'')]"
proof -
  let ?w = "world [(''cdn.example'', [''1.1.1.1'', ''1.0.0.1''])]
             [(probe_url ''cdn.example'', reply 200 [(''Server'', ''cloudflare'')])] [] []"
  let ?page = "page_of [http_record ''cdn.example'' ''1.1.1.1'' 80]"
  have table: "fst (display_results ?w ?page ''port:80'' [])
      = Inr [(1, ''cdn.example'', ''1.1.1.1'', 80, Some unknown_label, Some ''cloudflare'')]"
    by (simp add: run_defs url_defs fixture_defs COMMON_CDN_NAMES_def lower_eval)
  have sheet: "fst (export_to_excel ?w ?page ''port:80'' [])
      = Inr [(1, ''cdn.example'', ''1.1.1.1'', 80, None, Some ''cloudflare'')]"
    by (simp add: run_defs url_defs fixture_defs COMMON_CDN_NAMES_def lower_eval
        file_name_def query_filename_def replace_def)
  have multi: "multi_homed ?w ''cdn.example''"
    by (simp add: multi_homed_def fixture_defs)
  have label: "or_unknown None = Some unknown_label"
    by (simp add: or_unknown_def)
  from table_and_spreadsheet_agree [OF table sheet] table sheet multi label
  show ?thesis by simp
qed

end
